theory Spec2Isabelle
  imports Complex_Main
begin

section \<open>JavaScript values\<close>

text \<open>
  The servers exchange JSON with their callers and with the upstream API. A JavaScript
  number is modelled by the exact rational value of the double (every finite double is a
  rational), with the three non-finite values beside it. An array is an object whose keys
  are its indices and \<open>length\<close>, which is how the operators used in the sources
  (\<open>in\<close>, property access) see it.
\<close>

datatype jsnum = Fin rat | PosInf | NegInf | NaN

datatype jsval =
    JUndefined
  | JNull
  | JBool bool
  | JNum jsnum
  | JStr string
  | JObj "(string \<times> jsval) list"

text \<open>Truthiness, as \<open>!x\<close>, \<open>x || y\<close> and \<open>if (x)\<close> test it.\<close>

fun truthy :: "jsval \<Rightarrow> bool" where
  "truthy JUndefined = False"
| "truthy JNull = False"
| "truthy (JBool b) = b"
| "truthy (JNum (Fin q)) = (q \<noteq> 0)"
| "truthy (JNum PosInf) = True"
| "truthy (JNum NegInf) = True"
| "truthy (JNum NaN) = False"
| "truthy (JStr s) = (s \<noteq> [])"
| "truthy (JObj fs) = True"

text \<open>
  Property read \<open>x.k\<close> where \<open>x\<close> is known not to be \<open>null\<close> or
  \<open>undefined\<close>: an object yields its own property, a primitive has none of the
  property names the sources read.
\<close>

fun get_prop :: "jsval \<Rightarrow> string \<Rightarrow> jsval" where
  "get_prop (JObj fs) k = (case map_of fs k of Some v \<Rightarrow> v | None \<Rightarrow> JUndefined)"
| "get_prop _ k = JUndefined"

section \<open>The JavaScript Map\<close>

text \<open>
  A \<open>Map\<close> keeps its entries in insertion order; \<open>set\<close> on a key already
  present replaces the value where it stands, \<open>delete\<close> removes the entry.
\<close>

type_synonym ('k, 'v) jsmap = "('k \<times> 'v) list"

fun jsmap_set :: "'k \<Rightarrow> 'v \<Rightarrow> ('k, 'v) jsmap \<Rightarrow> ('k, 'v) jsmap" where
  "jsmap_set k v [] = [(k, v)]"
| "jsmap_set k v ((k', v') # m) =
     (if k = k' then (k, v) # m else (k', v') # jsmap_set k v m)"

definition jsmap_get :: "('k, 'v) jsmap \<Rightarrow> 'k \<Rightarrow> 'v option" where
  "jsmap_get m k = map_of m k"

definition jsmap_has :: "('k, 'v) jsmap \<Rightarrow> 'k \<Rightarrow> bool" where
  "jsmap_has m k = (map_of m k \<noteq> None)"

definition jsmap_delete :: "'k \<Rightarrow> ('k, 'v) jsmap \<Rightarrow> ('k, 'v) jsmap" where
  "jsmap_delete k m = filter (\<lambda>e. fst e \<noteq> k) m"

definition jsmap_keys :: "('k, 'v) jsmap \<Rightarrow> 'k set" where
  "jsmap_keys m = fst ` set m"

section \<open>The upstream API handle (lib/rezoomex-client.js)\<close>

text \<open>
  What the upstream answers to \<open>GET /v1/users/me\<close> is an input of the model:
  a reply with its status and body, or no reply (axios rejects on a network error, a
  timeout or a status outside 2xx).
\<close>

datatype upstream_reply = Reply int jsval | NoReply

record client =
  bearerToken :: jsval
  authenticated :: bool
  userInfo :: jsval

definition RezoomexApiClient :: "jsval \<Rightarrow> client" where
  "RezoomexApiClient tok = \<lparr>bearerToken = tok, authenticated = False, userInfo = JNull\<rparr>"

text \<open>\<open>validateSession\<close> catches every error; it returns the verdict and the mutated handle.\<close>

fun validateSession :: "client \<Rightarrow> upstream_reply \<Rightarrow> bool \<times> client" where
  "validateSession c (Reply st d) =
     (if st = 200 then (True, c\<lparr>authenticated := True, userInfo := d\<rparr>) else (False, c))"
| "validateSession c NoReply = (False, c\<lparr>authenticated := False\<rparr>)"

section \<open>The session registry (lib/auth-manager.js)\<close>

record session =
  createdAt :: int

record temp_token =
  token :: jsval
  storedAt :: int

record auth_manager =
  sessions :: "(string, session) jsmap"
  clients :: "(string, client) jsmap"
  tempTokens :: "(string, temp_token) jsmap"
  sessionTimeout :: int
  tempTokenTimeout :: int

text \<open>
  \<open>parseInt(process.env.X) || d\<close>: the variable read as an integer, or the default
  when it is unset, not a number, or zero.
\<close>

definition env_or_default :: "int option \<Rightarrow> int \<Rightarrow> int" where
  "env_or_default v d = (case v of None \<Rightarrow> d | Some n \<Rightarrow> if n = 0 then d else n)"

definition new_AuthManager :: "int option \<Rightarrow> int option \<Rightarrow> auth_manager" where
  "new_AuthManager env_session env_temp =
     \<lparr>sessions = [], clients = [], tempTokens = [],
      sessionTimeout = env_or_default env_session 86400000,
      tempTokenTimeout = env_or_default env_temp 300000\<rparr>"

text \<open>
  \<open>authenticateWithToken\<close>: the attempt is \<open>None\<close> when the \<open>try\<close> block
  throws before a verdict (the import or the constructor), otherwise the upstream reply
  that \<open>validateSession\<close> sees. \<open>now\<close> is \<open>Date.now()\<close>.
\<close>

definition authenticateWithToken ::
  "auth_manager \<Rightarrow> int \<Rightarrow> jsval \<Rightarrow> string \<Rightarrow> upstream_reply option
     \<Rightarrow> client option \<times> auth_manager" where
  "authenticateWithToken am now tok sessionId attempt =
     (case attempt of
        None \<Rightarrow> (None, am)
      | Some reply \<Rightarrow>
          (case validateSession (RezoomexApiClient tok) reply of
             (isValid, c) \<Rightarrow>
               if isValid then
                 (Some c,
                  am\<lparr>clients := jsmap_set sessionId c (clients am),
                     sessions := jsmap_set sessionId \<lparr>createdAt = now\<rparr> (sessions am)\<rparr>)
               else (None, am)))"

text \<open>\<open>getClient\<close>: the session id is \<open>None\<close> when the caller passes \<open>undefined\<close>.\<close>

definition getClient ::
  "auth_manager \<Rightarrow> int \<Rightarrow> string option \<Rightarrow> client option \<times> auth_manager" where
  "getClient am now sessionId =
     (case sessionId of
        None \<Rightarrow> (None, am)
      | Some sid \<Rightarrow>
          if sid = [] then (None, am)
          else (case jsmap_get (clients am) sid of
                  None \<Rightarrow> (None, am)
                | Some c \<Rightarrow>
                    (Some c, am\<lparr>sessions := jsmap_set sid \<lparr>createdAt = now\<rparr> (sessions am)\<rparr>)))"

definition clearSession :: "auth_manager \<Rightarrow> string \<Rightarrow> auth_manager" where
  "clearSession am sessionId =
     (let am1 = (if jsmap_has (clients am) sessionId
                 then am\<lparr>clients := jsmap_delete sessionId (clients am)\<rparr> else am)
      in if jsmap_has (sessions am1) sessionId
         then am1\<lparr>sessions := jsmap_delete sessionId (sessions am1)\<rparr> else am1)"

text \<open>The sweep visits every entry of \<open>sessions\<close> once, in order.\<close>

fun cleanupExpiredSessions_loop ::
  "int \<Rightarrow> (string \<times> session) list \<Rightarrow> auth_manager \<Rightarrow> auth_manager" where
  "cleanupExpiredSessions_loop now [] am = am"
| "cleanupExpiredSessions_loop now ((sid, s) # rest) am =
     cleanupExpiredSessions_loop now rest
       (if now - createdAt s > sessionTimeout am
        then am\<lparr>sessions := jsmap_delete sid (sessions am),
                clients := jsmap_delete sid (clients am)\<rparr>
        else am)"

definition cleanupExpiredSessions :: "auth_manager \<Rightarrow> int \<Rightarrow> auth_manager" where
  "cleanupExpiredSessions am now = cleanupExpiredSessions_loop now (sessions am) am"

definition storeTempToken :: "auth_manager \<Rightarrow> int \<Rightarrow> string \<Rightarrow> jsval \<Rightarrow> auth_manager" where
  "storeTempToken am now tokenId tok =
     am\<lparr>tempTokens := jsmap_set tokenId \<lparr>token = tok, storedAt = now\<rparr> (tempTokens am)\<rparr>"

text \<open>The temporary tokens are checked for expiry when they are read.\<close>

definition getTempToken ::
  "auth_manager \<Rightarrow> int \<Rightarrow> string \<Rightarrow> jsval option \<times> auth_manager" where
  "getTempToken am now tokenId =
     (case jsmap_get (tempTokens am) tokenId of
        None \<Rightarrow> (None, am)
      | Some td \<Rightarrow>
          if now - storedAt td > tempTokenTimeout am
          then (None, am\<lparr>tempTokens := jsmap_delete tokenId (tempTokens am)\<rparr>)
          else (Some (token td), am))"

text \<open>
  \<open>validateAllSessions\<close> walks a snapshot of \<open>clients\<close>. The handle is an object
  shared with the map, so what \<open>validateSession\<close> writes into it shows in the stored
  entry. A result is the session id and its verdict.
\<close>

definition jsmap_mutate :: "'k \<Rightarrow> 'v \<Rightarrow> ('k, 'v) jsmap \<Rightarrow> ('k, 'v) jsmap" where
  "jsmap_mutate k v m = map (\<lambda>e. if fst e = k then (k, v) else e) m"

fun validateAllSessions_loop ::
  "(string \<Rightarrow> upstream_reply) \<Rightarrow> (string \<times> client) list \<Rightarrow> auth_manager
     \<Rightarrow> (string \<times> bool) list \<Rightarrow> (string \<times> bool) list \<times> auth_manager" where
  "validateAllSessions_loop replies [] am results = (results, am)"
| "validateAllSessions_loop replies ((sid, c) # rest) am results =
     (case validateSession c (replies sid) of
        (isValid, c') \<Rightarrow>
          (let am1 = am\<lparr>clients := jsmap_mutate sid c' (clients am)\<rparr>
           in if \<not> isValid
              then validateAllSessions_loop replies rest (clearSession am1 sid)
                     (results @ [(sid, False)])
              else validateAllSessions_loop replies rest am1 (results @ [(sid, True)])))"

definition validateAllSessions ::
  "auth_manager \<Rightarrow> (string \<Rightarrow> upstream_reply) \<Rightarrow> (string \<times> bool) list \<times> auth_manager" where
  "validateAllSessions am replies = validateAllSessions_loop replies (clients am) am []"

definition cleanup :: "auth_manager \<Rightarrow> auth_manager" where
  "cleanup am = am\<lparr>clients := [], sessions := [], tempTokens := []\<rparr>"

text \<open>The operations of the registry as a step function, each at its own clock reading.\<close>

datatype am_op =
    OpAuthenticateWithToken jsval string "upstream_reply option"
  | OpGetClient "string option"
  | OpClearSession string
  | OpCleanupExpiredSessions
  | OpValidateAllSessions "string \<Rightarrow> upstream_reply"
  | OpCleanup

fun am_step :: "int \<times> am_op \<Rightarrow> auth_manager \<Rightarrow> auth_manager" where
  "am_step (now, OpAuthenticateWithToken tok sid attempt) am =
     snd (authenticateWithToken am now tok sid attempt)"
| "am_step (now, OpGetClient sid) am = snd (getClient am now sid)"
| "am_step (now, OpClearSession sid) am = clearSession am sid"
| "am_step (now, OpCleanupExpiredSessions) am = cleanupExpiredSessions am now"
| "am_step (now, OpValidateAllSessions replies) am = snd (validateAllSessions am replies)"
| "am_step (now, OpCleanup) am = cleanup am"

fun am_run :: "(int \<times> am_op) list \<Rightarrow> auth_manager \<Rightarrow> auth_manager" where
  "am_run [] am = am"
| "am_run (op # ops) am = am_run ops (am_step op am)"

text \<open>The registry's invariant: a session entry exists exactly where a handle is stored.\<close>

definition registry_inv :: "auth_manager \<Rightarrow> bool" where
  "registry_inv am = (jsmap_keys (sessions am) = jsmap_keys (clients am))"

section \<open>The tool catalog (lib/mcp-tools.js)\<close>

text \<open>
  A tool descriptor is its name and its input schema. The description strings, which no
  code path reads, are left out. A field schema is its type name and the bounds it
  declares.
\<close>

record field_schema =
  ftype :: string
  minimum :: "rat option"
  maximum :: "rat option"

record input_schema =
  properties :: "(string \<times> field_schema) list"
  required :: "string list"

record tool =
  name :: string
  inputSchema :: input_schema

definition string_field :: field_schema where
  "string_field = \<lparr>ftype = ''string'', minimum = None, maximum = None\<rparr>"

definition integer_min1 :: field_schema where
  "integer_min1 = \<lparr>ftype = ''integer'', minimum = Some 1, maximum = None\<rparr>"

definition mk_tool :: "string \<Rightarrow> (string \<times> field_schema) list \<Rightarrow> string list \<Rightarrow> tool" where
  "mk_tool n ps rs = \<lparr>name = n, inputSchema = \<lparr>properties = ps, required = rs\<rparr>\<rparr>"

definition toolDefinitions :: "tool list" where
  "toolDefinitions =
    [mk_tool ''authenticate''
       [(''email'', string_field), (''password'', string_field)]
       [''email'', ''password''],
     mk_tool ''list_user_stories''
       [(''project_id'', string_field), (''persona_id'', string_field)]
       [''project_id'', ''persona_id''],
     mk_tool ''get_story_range''
       [(''start_number'', integer_min1), (''end_number'', integer_min1),
        (''project_id'', string_field), (''persona_id'', string_field)]
       [''start_number'', ''end_number'', ''project_id'', ''persona_id''],
     mk_tool ''get_single_story_details''
       [(''story_number'', integer_min1), (''story_id'', string_field),
        (''project_id'', string_field), (''persona_id'', string_field)]
       [''project_id'', ''persona_id''],
     mk_tool ''get_project_overview'' [(''project_id'', string_field)] [''project_id''],
     mk_tool ''get_persona_profile''
       [(''project_id'', string_field), (''persona_id'', string_field)]
       [''project_id'', ''persona_id''],
     mk_tool ''get_user_journey''
       [(''project_id'', string_field), (''persona_id'', string_field)]
       [''project_id'', ''persona_id''],
     mk_tool ''get_jobs_to_be_done''
       [(''project_id'', string_field), (''persona_id'', string_field)]
       [''project_id'', ''persona_id''],
     mk_tool ''get_user_info'' [] [],
     mk_tool ''get_project_environment'' [(''project_id'', string_field)] [''project_id''],
     mk_tool ''check_nda_status'' [] [],
     mk_tool ''get_product_info'' [(''project_id'', string_field)] [''project_id''],
     mk_tool ''list_projects'' [] [],
     mk_tool ''find_project_by_name'' [(''project_name'', string_field)] [''project_name''],
     mk_tool ''find_persona_by_name''
       [(''project_id'', string_field), (''persona_name'', string_field)]
       [''project_id'', ''persona_name''],
     mk_tool ''get_user_stories_by_name''
       [(''project_name'', string_field), (''persona_name'', string_field)]
       [''project_name'', ''persona_name''],
     mk_tool ''get_persona_by_name''
       [(''project_name'', string_field), (''persona_name'', string_field)]
       [''project_name'', ''persona_name''],
     mk_tool ''get_project_by_name'' [(''project_name'', string_field)] [''project_name''],
     mk_tool ''mcp0_getUserInfo'' [] [],
     mk_tool ''mcp0_fetchPersona''
       [(''projectId'', string_field), (''personaId'', string_field)]
       [''projectId'', ''personaId''],
     mk_tool ''mcp0_fetchElevatorPitch'' [(''projectId'', string_field)] [''projectId''],
     mk_tool ''mcp0_fetchVisionStatement'' [(''projectId'', string_field)] [''projectId''],
     mk_tool ''mcp0_fetchProductInfo'' [(''projectId'', string_field)] [''projectId''],
     mk_tool ''mcp0_fetchProjectEnvironment'' [(''projectId'', string_field)] [''projectId''],
     mk_tool ''mcp0_checkNdaStatus'' [] []]"

text \<open>\<open>initializeTools\<close> stores every definition in a Map keyed by its name.\<close>

definition initializeTools :: "tool list \<Rightarrow> (string, tool) jsmap" where
  "initializeTools defs = foldl (\<lambda>m t. jsmap_set (name t) t m) [] defs"

definition MCPTools :: "(string, tool) jsmap" where
  "MCPTools = initializeTools toolDefinitions"

definition getToolDefinitions :: "tool list" where
  "getToolDefinitions = map snd MCPTools"

definition getTool :: "string \<Rightarrow> tool option" where
  "getTool n = jsmap_get MCPTools n"

definition hasTools :: "string \<Rightarrow> bool" where
  "hasTools n = jsmap_has MCPTools n"

section \<open>Argument validation and the tool-call handler (lib/mcp-tools.js)\<close>

datatype verr =
    MissingRequired string
  | NotInteger string
  | NotString string
  | BelowMinimum string rat
  | AboveMaximum string rat

datatype error =
    UnknownTool jsval
  | ValidationErrors "verr list"
  | TypeError
  | AuthHandledByServer
  | ClientRequired
  | NotImplemented string
  | Thrown string

text \<open>\<open>k in x\<close> throws a TypeError unless \<open>x\<close> is an object.\<close>

fun js_in :: "string \<Rightarrow> jsval \<Rightarrow> error + bool" where
  "js_in k (JObj fs) = Inr (map_of fs k \<noteq> None)"
| "js_in k _ = Inl TypeError"

fun isInteger :: "jsval \<Rightarrow> bool" where
  "isInteger (JNum (Fin q)) = (of_int \<lfloor>q\<rfloor> = q)"
| "isInteger _ = False"

fun isString :: "jsval \<Rightarrow> bool" where
  "isString (JStr s) = True"
| "isString _ = False"

text \<open>
  \<open>value < bound\<close> and \<open>value > bound\<close> against a numeric bound compare numbers.
  \<open>coerce\<close> is the platform's conversion of a string or an object to a number; the
  other conversions are fixed by the language.
\<close>

fun to_number :: "(jsval \<Rightarrow> jsnum) \<Rightarrow> jsval \<Rightarrow> jsnum" where
  "to_number coerce (JNum n) = n"
| "to_number coerce JUndefined = NaN"
| "to_number coerce JNull = Fin 0"
| "to_number coerce (JBool b) = Fin (if b then 1 else 0)"
| "to_number coerce v = coerce v"

fun num_less :: "jsnum \<Rightarrow> jsnum \<Rightarrow> bool" where
  "num_less (Fin a) (Fin b) = (a < b)"
| "num_less NegInf (Fin b) = True"
| "num_less NegInf PosInf = True"
| "num_less (Fin a) PosInf = True"
| "num_less _ _ = False"

fun check_required :: "string list \<Rightarrow> jsval \<Rightarrow> verr list \<Rightarrow> error + verr list" where
  "check_required [] input errors = Inr errors"
| "check_required (rf # rest) input errors =
     (case js_in rf input of
        Inl e \<Rightarrow> Inl e
      | Inr present \<Rightarrow>
          check_required rest input
            (if \<not> present \<or> get_prop input rf = JNull \<or> get_prop input rf = JUndefined
             then errors @ [MissingRequired rf] else errors))"

definition field_errors :: "(jsval \<Rightarrow> jsnum) \<Rightarrow> string \<Rightarrow> field_schema \<Rightarrow> jsval \<Rightarrow> verr list" where
  "field_errors coerce fieldName fieldSchema v =
     (if ftype fieldSchema = ''integer'' \<and> \<not> isInteger v then [NotInteger fieldName]
      else if ftype fieldSchema = ''string'' \<and> \<not> isString v then [NotString fieldName]
      else [])
     @ (case minimum fieldSchema of
          None \<Rightarrow> []
        | Some lo \<Rightarrow>
            if num_less (to_number coerce v) (Fin lo) then [BelowMinimum fieldName lo] else [])
     @ (case maximum fieldSchema of
          None \<Rightarrow> []
        | Some hi \<Rightarrow>
            if num_less (Fin hi) (to_number coerce v) then [AboveMaximum fieldName hi] else [])"

fun check_properties ::
  "(jsval \<Rightarrow> jsnum) \<Rightarrow> (string \<times> field_schema) list \<Rightarrow> jsval \<Rightarrow> verr list
     \<Rightarrow> error + verr list" where
  "check_properties coerce [] input errors = Inr errors"
| "check_properties coerce ((fieldName, fieldSchema) # rest) input errors =
     (case js_in fieldName input of
        Inl e \<Rightarrow> Inl e
      | Inr present \<Rightarrow>
          check_properties coerce rest input
            (if present then errors @ field_errors coerce fieldName fieldSchema
                                       (get_prop input fieldName)
             else errors))"

definition validateToolInput :: "(jsval \<Rightarrow> jsnum) \<Rightarrow> string \<Rightarrow> jsval \<Rightarrow> error + unit" where
  "validateToolInput coerce toolName input =
     (case getTool toolName of
        None \<Rightarrow> Inl (UnknownTool (JStr toolName))
      | Some t \<Rightarrow>
          (case check_required (required (inputSchema t)) input [] of
             Inl e \<Rightarrow> Inl e
           | Inr errors1 \<Rightarrow>
               (case check_properties coerce (properties (inputSchema t)) input errors1 of
                  Inl e \<Rightarrow> Inl e
                | Inr errors \<Rightarrow>
                    if errors \<noteq> [] then Inl (ValidationErrors errors) else Inr ())))"

text \<open>
  A call on the upstream handle: the handle's bearer credential, the method and its
  arguments. What the upstream returns (or throws) is an input; a computation yields its
  result and the calls it made, in order.
\<close>

datatype upcall = UpCall jsval string "jsval list"

type_synonym upstream = "client \<Rightarrow> string \<Rightarrow> jsval list \<Rightarrow> error + jsval"

type_synonym 'a eff = "(error + 'a) \<times> upcall list"

definition invoke :: "upstream \<Rightarrow> client \<Rightarrow> string \<Rightarrow> jsval list \<Rightarrow> jsval eff" where
  "invoke up c m as = (up c m as, [UpCall (bearerToken c) m as])"

definition bind_eff :: "'a eff \<Rightarrow> ('a \<Rightarrow> 'b eff) \<Rightarrow> 'b eff" where
  "bind_eff x f =
     (case x of
        (Inl e, tr) \<Rightarrow> (Inl e, tr)
      | (Inr v, tr) \<Rightarrow> (case f v of (r, tr') \<Rightarrow> (r, tr @ tr')))"

text \<open>
  Reading \<open>args.k\<close> throws a TypeError when \<open>args\<close> is \<open>undefined\<close> or
  \<open>null\<close>; the arguments of a call are read before the call is made.
\<close>

definition read_args :: "jsval \<Rightarrow> string list \<Rightarrow> error + jsval list" where
  "read_args args ks =
     (if ks \<noteq> [] \<and> (args = JUndefined \<or> args = JNull) then Inl TypeError
      else Inr (map (get_prop args) ks))"

definition call_with :: "upstream \<Rightarrow> client \<Rightarrow> jsval \<Rightarrow> string \<Rightarrow> string list \<Rightarrow> jsval eff" where
  "call_with up c args m ks =
     (case read_args args ks of
        Inl e \<Rightarrow> (Inl e, [])
      | Inr vs \<Rightarrow> invoke up c m vs)"

text \<open>\<open>x.overview?.k || fallback\<close>, wrapped as \<open>{ result: ... }\<close>.\<close>

definition overview_field :: "jsval \<Rightarrow> string \<Rightarrow> string \<Rightarrow> jsval eff" where
  "overview_field ov k fallback =
     (if ov = JUndefined \<or> ov = JNull then (Inl TypeError, [])
      else (let inner = get_prop ov ''overview'';
                v = (if inner = JUndefined \<or> inner = JNull then JUndefined
                     else get_prop inner k)
            in (Inr (JObj [(''result'', if truthy v then v else JStr fallback)]), [])))"

definition callTool_switch :: "upstream \<Rightarrow> string \<Rightarrow> jsval \<Rightarrow> client \<Rightarrow> jsval eff" where
  "callTool_switch up toolName args c =
    (if toolName = ''list_user_stories'' then
       call_with up c args ''getUserStories'' [''project_id'', ''persona_id'']
     else if toolName = ''get_story_range'' then
       call_with up c args ''getStoryRange''
         [''project_id'', ''persona_id'', ''start_number'', ''end_number'']
     else if toolName = ''get_single_story_details'' then
       call_with up c args ''getSingleStoryDetails''
         [''project_id'', ''persona_id'', ''story_number'', ''story_id'']
     else if toolName = ''get_project_overview'' then
       call_with up c args ''getProjectOverview'' [''project_id'']
     else if toolName = ''get_persona_profile'' then
       call_with up c args ''getPersonaProfile'' [''project_id'', ''persona_id'']
     else if toolName = ''get_user_journey'' then
       call_with up c args ''getUserJourney'' [''project_id'', ''persona_id'']
     else if toolName = ''get_jobs_to_be_done'' then
       call_with up c args ''getJobsToBeDone'' [''project_id'', ''persona_id'']
     else if toolName = ''get_user_info'' then
       call_with up c args ''getUserInfo'' []
     else if toolName = ''get_project_environment'' then
       call_with up c args ''getProjectEnvironment'' [''project_id'']
     else if toolName = ''check_nda_status'' then
       call_with up c args ''checkNdaStatus'' []
     else if toolName = ''get_product_info'' then
       call_with up c args ''getProductInfo'' [''project_id'']
     else if toolName = ''list_projects'' then
       call_with up c args ''getAllProjects'' []
     else if toolName = ''find_project_by_name'' then
       call_with up c args ''findProjectByName'' [''project_name'']
     else if toolName = ''find_persona_by_name'' then
       bind_eff (call_with up c args ''resolveProjectId'' [''project_id''])
         (\<lambda>p. invoke up c ''findPersonaByName'' [p, get_prop args ''persona_name''])
     else if toolName = ''get_user_stories_by_name'' then
       bind_eff (call_with up c args ''resolveProjectId'' [''project_name''])
         (\<lambda>p. bind_eff (invoke up c ''resolvePersonaId'' [p, get_prop args ''persona_name''])
           (\<lambda>q. invoke up c ''getUserStories'' [p, q]))
     else if toolName = ''get_project_by_name'' then
       call_with up c args ''findProjectByName'' [''project_name'']
     else if toolName = ''get_persona_by_name'' then
       bind_eff (call_with up c args ''resolveProjectId'' [''project_name''])
         (\<lambda>p. bind_eff (invoke up c ''resolvePersonaId'' [p, get_prop args ''persona_name''])
           (\<lambda>q. invoke up c ''getPersonaProfile'' [p, q]))
     else if toolName = ''mcp0_getUserInfo'' then
       call_with up c args ''getUserInfo'' []
     else if toolName = ''mcp0_fetchPersona'' then
       call_with up c args ''getPersonaProfile'' [''projectId'', ''personaId'']
     else if toolName = ''mcp0_fetchElevatorPitch'' then
       bind_eff (call_with up c args ''getProjectOverview'' [''projectId''])
         (\<lambda>ov. overview_field ov ''elevatorPitch'' ''No elevator pitch available'')
     else if toolName = ''mcp0_fetchVisionStatement'' then
       bind_eff (call_with up c args ''getProjectOverview'' [''projectId''])
         (\<lambda>ov. overview_field ov ''visionStatement'' ''No vision statement available'')
     else if toolName = ''mcp0_fetchProductInfo'' then
       call_with up c args ''getProductInfo'' [''projectId'']
     else if toolName = ''mcp0_fetchProjectEnvironment'' then
       call_with up c args ''getProjectEnvironment'' [''projectId'']
     else if toolName = ''mcp0_checkNdaStatus'' then
       call_with up c args ''checkNdaStatus'' []
     else (Inl (NotImplemented toolName), []))"

text \<open>\<open>callTool\<close>: the handle is \<open>None\<close> when the caller passes none.\<close>

definition callTool ::
  "(jsval \<Rightarrow> jsnum) \<Rightarrow> upstream \<Rightarrow> string \<Rightarrow> jsval \<Rightarrow> client option \<Rightarrow> jsval eff" where
  "callTool coerce up toolName args cl =
     (if \<not> hasTools toolName then (Inl (UnknownTool (JStr toolName)), [])
      else (case validateToolInput coerce toolName args of
              Inl e \<Rightarrow> (Inl e, [])
            | Inr ok \<Rightarrow>
                if toolName = ''authenticate'' then (Inl AuthHandledByServer, [])
                else (case cl of
                        None \<Rightarrow> (Inl ClientRequired, [])
                      | Some c \<Rightarrow> callTool_switch up toolName args c)))"

text \<open>
  What the schema asks of an object of arguments, in the words of the specification:
  every required field is present, every field present has the declared primitive type
  and lies within the declared bounds.
\<close>

definition field_absent :: "(string \<times> jsval) list \<Rightarrow> string \<Rightarrow> bool" where
  "field_absent fs rf =
     (case map_of fs rf of None \<Rightarrow> True | Some v \<Rightarrow> v = JNull \<or> v = JUndefined)"

definition field_violates :: "(jsval \<Rightarrow> jsnum) \<Rightarrow> (string \<times> jsval) list \<Rightarrow> string \<times> field_schema \<Rightarrow> bool" where
  "field_violates coerce fs p =
     (case map_of fs (fst p) of
        None \<Rightarrow> False
      | Some v \<Rightarrow>
          (ftype (snd p) = ''integer'' \<and> \<not> isInteger v)
          \<or> (ftype (snd p) = ''string'' \<and> \<not> isString v)
          \<or> (case minimum (snd p) of None \<Rightarrow> False
              | Some lo \<Rightarrow> num_less (to_number coerce v) (Fin lo))
          \<or> (case maximum (snd p) of None \<Rightarrow> False
              | Some hi \<Rightarrow> num_less (Fin hi) (to_number coerce v)))"

definition schema_violation :: "(jsval \<Rightarrow> jsnum) \<Rightarrow> tool \<Rightarrow> (string \<times> jsval) list \<Rightarrow> bool" where
  "schema_violation coerce t fs =
     (list_ex (field_absent fs) (required (inputSchema t))
      \<or> list_ex (field_violates coerce fs) (properties (inputSchema t)))"

text \<open>The errors the property loop adds for one schema entry, given the object's fields.\<close>

definition present_errors :: "(jsval \<Rightarrow> jsnum) \<Rightarrow> (string \<times> jsval) list \<Rightarrow> string \<times> field_schema \<Rightarrow> verr list" where
  "present_errors coerce fs p =
     (case map_of fs (fst p) of None \<Rightarrow> [] | Some v \<Rightarrow> field_errors coerce (fst p) (snd p) v)"

section \<open>The JSON-RPC endpoints\<close>

text \<open>
  What the servers cannot decide themselves is an input: the upstream's answer to a
  login (\<open>POST /v1/users/auth0/token\<close>), its answer to \<open>GET /v1/users/me\<close>
  as the token checks see it, the outcome of the session registry's validation attempt,
  the upstream operations behind the tools, and the platform's conversions of a value to
  a number and to a string.
\<close>

record env =
  env_login :: "jsval \<Rightarrow> jsval \<Rightarrow> upstream_reply"
  env_users_me :: "jsval \<Rightarrow> upstream_reply"
  env_probe :: "jsval \<Rightarrow> upstream_reply option"
  env_coerce :: "jsval \<Rightarrow> jsnum"
  env_upstream :: upstream
  env_str :: "jsval \<Rightarrow> string"
  env_dec :: "int \<Rightarrow> string"

datatype rpc_msg =
    MsgMethodNotFound jsval
  | MsgNotAuthenticated
  | MsgAuthenticationFailed error
  | MsgAuthenticationRequired
  | MsgInternalError
  | MsgError error

datatype rpc_payload =
    ServerInfo
  | ToolList "tool list"
  | TextContent jsval
  | AuthSuccess string jsval

datatype rpc_body =
    RpcResult jsval rpc_payload
  | RpcError jsval int rpc_msg

text \<open>An answer: the HTTP status, the JSON-RPC body, the registry, the upstream calls made.\<close>

type_synonym rpc_outcome = "(int \<times> rpc_body) \<times> auth_manager \<times> upcall list"

text \<open>\<open>req.body?.id || null\<close>\<close>

definition id_or_null :: "jsval \<Rightarrow> jsval" where
  "id_or_null request =
     (if request = JUndefined \<or> request = JNull then JNull
      else if truthy (get_prop request ''id'') then get_prop request ''id'' else JNull)"

text \<open>A tool name that is not a string is in no Map of tools.\<close>

definition callTool_value ::
  "(jsval \<Rightarrow> jsnum) \<Rightarrow> upstream \<Rightarrow> jsval \<Rightarrow> jsval \<Rightarrow> client option \<Rightarrow> jsval eff" where
  "callTool_value coerce up nm args cl =
     (case nm of
        JStr n \<Rightarrow> callTool coerce up n args cl
      | _ \<Rightarrow> (Inl (UnknownTool nm), []))"

subsection \<open>POST /sse of the credential-tool server\<close>

text \<open>The \<open>authenticate\<close> tool: every failure inside its \<open>try\<close> becomes an error body.\<close>

definition sse_authenticate :: "env \<Rightarrow> int \<Rightarrow> jsval \<Rightarrow> auth_manager \<Rightarrow> rpc_outcome" where
  "sse_authenticate e now request am =
     (let rid = get_prop request ''id'';
          failed = (\<lambda>err am'. ((200, RpcError rid (-32603) (MsgAuthenticationFailed err)), am', []));
          args = get_prop (get_prop request ''params'') ''arguments''
      in if args = JUndefined \<or> args = JNull then failed TypeError am
         else if \<not> truthy (get_prop args ''email'') \<or> \<not> truthy (get_prop args ''password'')
         then failed (Thrown ''Email and password are required'') am
         else (case env_login e (get_prop args ''email'') (get_prop args ''password'') of
                 NoReply \<Rightarrow> failed (Thrown ''Request failed'') am
               | Reply st d \<Rightarrow>
                   if d = JUndefined \<or> d = JNull then failed TypeError am
                   else if truthy (get_prop d ''access_token'') then
                     (let mcpSessionId = ''mcp-default''
                      in case authenticateWithToken am now (get_prop d ''access_token'')
                                mcpSessionId (env_probe e (get_prop d ''access_token'')) of
                           (None, am') \<Rightarrow>
                             failed (Thrown ''Failed to authenticate with received token'') am'
                         | (Some c, am') \<Rightarrow>
                             ((200, RpcResult rid (AuthSuccess mcpSessionId (userInfo c))),
                              am', []))
                   else failed (Thrown ''No access token received'') am))"

definition sse_tools_call ::
  "env \<Rightarrow> int \<Rightarrow> string option \<Rightarrow> jsval \<Rightarrow> auth_manager \<Rightarrow> rpc_outcome" where
  "sse_tools_call e now x_session_id request am =
     (let rid = get_prop request ''id'';
          sessionId = (case x_session_id of
                         None \<Rightarrow> ''mcp-default''
                       | Some h \<Rightarrow> if h = [] then ''mcp-default'' else h);
          params = get_prop request ''params''
      in if params = JUndefined \<or> params = JNull
         then ((500, RpcError (id_or_null request) (-32603) (MsgError TypeError)), am, [])
         else if get_prop params ''name'' = JStr ''authenticate''
         then sse_authenticate e now request am
         else (case getClient am now (Some sessionId) of
                 (None, am') \<Rightarrow> ((200, RpcError rid (-32603) MsgNotAuthenticated), am', [])
               | (Some c, am') \<Rightarrow>
                   (case callTool_value (env_coerce e) (env_upstream e)
                           (get_prop params ''name'') (get_prop params ''arguments'') (Some c) of
                      (Inl err, tr) \<Rightarrow>
                        ((500, RpcError (id_or_null request) (-32603) (MsgError err)), am', tr)
                    | (Inr result, tr) \<Rightarrow>
                        ((200, RpcResult rid (TextContent result)), am', tr))))"

text \<open>The request body is the parsed JSON object; \<open>x_session_id\<close> is the header.\<close>

definition sse_post ::
  "env \<Rightarrow> int \<Rightarrow> string option \<Rightarrow> jsval \<Rightarrow> auth_manager \<Rightarrow> rpc_outcome" where
  "sse_post e now x_session_id request am =
     (if request = JUndefined \<or> request = JNull
      then ((500, RpcError JNull (-32603) (MsgError TypeError)), am, [])
      else if get_prop request ''method'' = JStr ''initialize''
      then ((200, RpcResult (get_prop request ''id'') ServerInfo), am, [])
      else if get_prop request ''method'' = JStr ''tools/list''
      then ((200, RpcResult (get_prop request ''id'') (ToolList getToolDefinitions)), am, [])
      else if get_prop request ''method'' = JStr ''tools/call''
      then sse_tools_call e now x_session_id request am
      else ((200, RpcError (get_prop request ''id'') (-32601)
                    (MsgMethodNotFound (get_prop request ''method''))), am, []))"

subsection \<open>POST /v1/sse of the OAuth server\<close>

text \<open>
  \<open>verifyAccessToken\<close>: the verified identity is the user id of the upstream profile
  (\<open>data.id || data.userId\<close>); any failure throws.
\<close>

definition verifyAccessToken :: "env \<Rightarrow> string \<Rightarrow> error + jsval" where
  "verifyAccessToken e tok =
     (case env_users_me e (JStr tok) of
        NoReply \<Rightarrow> Inl (Thrown ''Invalid access token'')
      | Reply st d \<Rightarrow>
          if \<not> truthy d then Inl (Thrown ''Invalid access token'')
          else Inr (if truthy (get_prop d ''id'') then get_prop d ''id''
                    else get_prop d ''userId''))"

text \<open>The tools offered once authentication is handled by the OAuth flow.\<close>

definition not_authenticate :: "tool \<Rightarrow> bool" where
  "not_authenticate t = (name t \<noteq> ''authenticate'')"

definition availableTools :: "tool list \<Rightarrow> tool list" where
  "availableTools allTools = filter not_authenticate allTools"

text \<open>
  The session id of a call:
  \<open>session_${userId || 'anon'}_${Date.now()}_${random}\<close>, where \<open>rnd\<close> is the
  random suffix.
\<close>

definition userSpecificSessionId :: "env \<Rightarrow> jsval \<Rightarrow> int \<Rightarrow> string \<Rightarrow> string" where
  "userSpecificSessionId e userId now rnd =
     ''session_'' @ (if truthy userId then env_str e userId else ''anon'')
       @ ''_'' @ env_dec e now @ ''_'' @ rnd"

definition v1_tools_call ::
  "env \<Rightarrow> int \<Rightarrow> string \<Rightarrow> string \<Rightarrow> jsval \<Rightarrow> jsval \<Rightarrow> auth_manager \<Rightarrow> rpc_outcome" where
  "v1_tools_call e now rnd tok userId request am =
     (let rid = get_prop request ''id'';
          params = get_prop request ''params'';
          toolName = (if params = JUndefined \<or> params = JNull then JUndefined
                      else get_prop params ''name'');
          given = (if params = JUndefined \<or> params = JNull then JUndefined
                   else get_prop params ''arguments'');
          toolArgs = (if truthy given then given else JObj []);
          failed = (\<lambda>err am' tr. ((200, RpcError rid (-32603) (MsgError err)), am', tr))
      in case authenticateWithToken am now (JStr tok) (userSpecificSessionId e userId now rnd)
                (env_probe e (JStr tok)) of
           (None, am') \<Rightarrow> failed (Thrown ''Failed to authenticate with token'') am' []
         | (Some c, am') \<Rightarrow>
             if toolName = JStr ''authenticate''
             then failed (Thrown ''Authentication is handled by OAuth2 flow'') am' []
             else (case callTool_value (env_coerce e) (env_upstream e) toolName toolArgs
                          (Some c) of
                     (Inl err, tr) \<Rightarrow> failed err am' tr
                   | (Inr result, tr) \<Rightarrow>
                       ((200, RpcResult rid (TextContent result)), am', tr)))"

text \<open>\<open>authorization\<close> is the request's Authorization header.\<close>

definition v1_sse_post ::
  "env \<Rightarrow> int \<Rightarrow> string \<Rightarrow> string option \<Rightarrow> jsval \<Rightarrow> auth_manager \<Rightarrow> rpc_outcome" where
  "v1_sse_post e now rnd authorization request am =
     (case authorization of
        None \<Rightarrow> ((401, RpcError (id_or_null request) (-32001) MsgAuthenticationRequired), am, [])
      | Some authHeader \<Rightarrow>
          if authHeader = [] \<or> take 7 authHeader \<noteq> ''Bearer ''
          then ((401, RpcError (id_or_null request) (-32001) MsgAuthenticationRequired), am, [])
          else (case verifyAccessToken e (drop 7 authHeader) of
                  Inl err \<Rightarrow>
                    ((500, RpcError (id_or_null request) (-32603) MsgInternalError), am, [])
                | Inr userId \<Rightarrow>
                    if request = JUndefined \<or> request = JNull
                    then ((500, RpcError JNull (-32603) MsgInternalError), am, [])
                    else if get_prop request ''method'' = JStr ''initialize''
                    then ((200, RpcResult (get_prop request ''id'') ServerInfo), am, [])
                    else if get_prop request ''method'' = JStr ''tools/list''
                    then ((200, RpcResult (get_prop request ''id'')
                                  (ToolList (availableTools getToolDefinitions))), am, [])
                    else if get_prop request ''method'' = JStr ''tools/call''
                    then v1_tools_call e now rnd (drop 7 authHeader) userId request am
                    else ((200, RpcError (get_prop request ''id'') (-32601)
                                  (MsgMethodNotFound (get_prop request ''method''))), am, [])))"

text \<open>The SDK server built by \<open>createMcpServer\<close> answers a tool listing the same way.\<close>

definition mcpServer_list_tools :: "tool list" where
  "mcpServer_list_tools = availableTools getToolDefinitions"

text \<open>Stub collaborators for concrete runs: two users, handles that answer with their own credential.\<close>

definition stub_login :: "jsval \<Rightarrow> jsval \<Rightarrow> upstream_reply" where
  "stub_login email password =
     (if email = JStr ''alice@example.com''
      then Reply 200 (JObj [(''access_token'', JStr ''token-alice'')])
      else if email = JStr ''bob@example.com''
      then Reply 200 (JObj [(''access_token'', JStr ''token-bob'')])
      else NoReply)"

definition stub_users_me :: "jsval \<Rightarrow> upstream_reply" where
  "stub_users_me tok =
     (if tok = JStr ''token-alice'' then Reply 200 (JObj [(''id'', JStr ''alice'')])
      else if tok = JStr ''token-bob'' then Reply 200 (JObj [(''id'', JStr ''bob'')])
      else NoReply)"

definition stub_probe :: "jsval \<Rightarrow> upstream_reply option" where
  "stub_probe tok = Some (stub_users_me tok)"

definition stub_coerce :: "jsval \<Rightarrow> jsnum" where
  "stub_coerce v = NaN"

definition stub_upstream :: upstream where
  "stub_upstream c m as = Inr (bearerToken c)"

definition stub_str :: "jsval \<Rightarrow> string" where
  "stub_str v = (case v of JStr s \<Rightarrow> s | _ \<Rightarrow> ''?'')"

definition stub_dec :: "int \<Rightarrow> string" where
  "stub_dec n = (if n = 0 then ''0'' else ''n'')"

definition stub_env :: env where
  "stub_env = \<lparr>env_login = stub_login, env_users_me = stub_users_me, env_probe = stub_probe,
               env_coerce = stub_coerce, env_upstream = stub_upstream,
               env_str = stub_str, env_dec = stub_dec\<rparr>"

definition authenticate_request :: "string \<Rightarrow> jsval" where
  "authenticate_request email =
     JObj [(''jsonrpc'', JStr ''2.0''), (''id'', JNum (Fin 1)), (''method'', JStr ''tools/call''),
           (''params'', JObj [(''name'', JStr ''authenticate''),
                             (''arguments'', JObj [(''email'', JStr email),
                                                  (''password'', JStr ''secret'')])])]"

definition get_user_info_request :: jsval where
  "get_user_info_request =
     JObj [(''jsonrpc'', JStr ''2.0''), (''id'', JNum (Fin 2)), (''method'', JStr ''tools/call''),
           (''params'', JObj [(''name'', JStr ''get_user_info''), (''arguments'', JObj [])])]"

definition tools_list_request :: jsval where
  "tools_list_request =
     JObj [(''jsonrpc'', JStr ''2.0''), (''id'', JNum (Fin 3)), (''method'', JStr ''tools/list'')]"

text \<open>The server answers its requests one after the other, on one registry.\<close>

fun sse_serve ::
  "env \<Rightarrow> (int \<times> string option \<times> jsval) list \<Rightarrow> auth_manager
     \<Rightarrow> ((int \<times> rpc_body) \<times> upcall list) list" where
  "sse_serve e [] am = []"
| "sse_serve e ((now, x_session_id, request) # rest) am =
     (case sse_post e now x_session_id request am of
        (response, am', tr) \<Rightarrow> (response, tr) # sse_serve e rest am')"

section \<open>The authorization-code broker of the OAuth server\<close>

text \<open>
  The broker keeps its records in one Map, \<open>sessionStore\<close>, under prefixed keys, and
  expires each record with its own \<open>setTimeout\<close>. A pending timer is the time it is due
  and the key it deletes. A request handled at time \<open>now\<close> finds every timer due by then
  already run: a timer never runs early, and the event loop runs the due timers before it
  takes up a later request.
\<close>

record oauth_state =
  sessionStore :: "(string, jsval) jsmap"
  timers :: "(int \<times> string) list"

definition run_timers :: "int \<Rightarrow> oauth_state \<Rightarrow> oauth_state" where
  "run_timers now st =
     \<lparr>sessionStore = foldl (\<lambda>m t. if fst t \<le> now then jsmap_delete (snd t) m else m)
                       (sessionStore st) (timers st),
      timers = filter (\<lambda>t. \<not> fst t \<le> now) (timers st)\<rparr>"

text \<open>
  The configuration and the collaborators: the parsed \<open>SESSION_TIMEOUT\<close> variable, the
  Auth0 client id when the Auth0 provider is configured, the outcome of its code exchange
  (\<open>None\<close> when it throws), the upstream's answers to a login and to
  \<open>GET /v1/users/me\<close>, and the \<open>session\<close> query parameter of a redirect URI
  (\<open>None\<close> when the URL constructor throws).
\<close>

text \<open>
  What the login request yields: a reply, or the error that axios rejects with, which
  carries the status of the response when there was one, the error code when there is
  one, and the message.
\<close>

record axios_error =
  ae_status :: "int option"
  ae_code :: "string option"
  ae_message :: string

datatype credentials_reply = CredentialsReply int jsval | CredentialsError axios_error

record oauth_env =
  oe_session_timeout_var :: "int option"
  oe_auth0_client_id :: "string option"
  oe_auth0_exchange :: "string \<Rightarrow> string option \<Rightarrow> jsval option"
  oe_credentials :: "string option \<Rightarrow> string option \<Rightarrow> credentials_reply"
  oe_users_me :: "jsval \<Rightarrow> upstream_reply"
  oe_url_session :: "string option \<Rightarrow> string option option"

definition SESSION_TIMEOUT :: "oauth_env \<Rightarrow> int" where
  "SESSION_TIMEOUT e = env_or_default (oe_session_timeout_var e) 300000"

datatype oauth_response =
    Redirect jsval "(string \<times> jsval) list"
  | SuccessPage string
  | CompletePage
  | ErrorForm error "string option" "string option"
  | Json int "(string \<times> jsval) list"

text \<open>\<open>res.json\<close> serialises the object; a property whose value is \<open>undefined\<close> is left out.\<close>

definition res_json :: "int \<Rightarrow> (string \<times> jsval) list \<Rightarrow> oauth_response" where
  "res_json st props = Json st (filter (\<lambda>f. snd f \<noteq> JUndefined) props)"

text \<open>A form field is \<open>None\<close> when the request does not carry it.\<close>

definition falsy_field :: "string option \<Rightarrow> bool" where
  "falsy_field f = (case f of None \<Rightarrow> True | Some s \<Rightarrow> s = [])"

definition field_value :: "string option \<Rightarrow> jsval" where
  "field_value f = (case f of None \<Rightarrow> JUndefined | Some s \<Rightarrow> JStr s)"

subsection \<open>RezoomexAuthProvider\<close>

text \<open>
  The \<open>catch\<close> of \<open>authenticateWithCredentials\<close> rethrows under one of four
  messages. The error thrown inside the \<open>try\<close> when the reply carries no token is
  caught there too; it has neither a response nor a code.
\<close>

definition credentials_failure :: "axios_error \<Rightarrow> error" where
  "credentials_failure err =
     (if ae_status err = Some 401 then Thrown ''Invalid email or password''
      else if ae_status err = Some 404 then Thrown ''Authentication endpoint not found''
      else if ae_code err = Some ''ECONNREFUSED'' then Thrown ''Cannot connect to Rezoomex API''
      else Thrown (''Authentication failed: '' @ ae_message err))"

definition no_token_received :: axios_error where
  "no_token_received =
     \<lparr>ae_status = None, ae_code = None,
      ae_message = ''No token received from authentication response''\<rparr>"

definition authenticateWithCredentials ::
  "oauth_env \<Rightarrow> string option \<Rightarrow> string option \<Rightarrow> error + jsval" where
  "authenticateWithCredentials e email password =
     (case oe_credentials e email password of
        CredentialsError err \<Rightarrow> Inl (credentials_failure err)
      | CredentialsReply st d \<Rightarrow>
          if truthy d \<and> truthy (get_prop d ''access_token'')
          then Inr (get_prop d ''access_token'')
          else if truthy d \<and> truthy (get_prop d ''token'')
          then Inr (get_prop d ''token'')
          else Inl (credentials_failure no_token_received))"

definition verifyToken :: "oauth_env \<Rightarrow> jsval \<Rightarrow> bool" where
  "verifyToken e tok =
     (case oe_users_me e tok of Reply st d \<Rightarrow> st = 200 | NoReply \<Rightarrow> False)"

subsection \<open>POST /authenticate\<close>

record auth_form =
  af_email :: "string option"
  af_password :: "string option"
  af_state :: "string option"
  af_redirect_uri :: "string option"

definition auth_code_key :: "string \<Rightarrow> string" where
  "auth_code_key c = ''auth_code:'' @ c"

definition auth_session_key :: "string \<Rightarrow> string" where
  "auth_session_key s = ''auth_session:'' @ s"

text \<open>The query a redirect carries: the code, and the state when there is one.\<close>

definition code_and_state :: "string \<Rightarrow> jsval \<Rightarrow> (string \<times> jsval) list" where
  "code_and_state authCode st =
     (''code'', JStr authCode) # (if truthy st then [(''state'', st)] else [])"

text \<open>
  \<open>authCode\<close> is the value of \<open>Math.random().toString(36).substring(2, 15)\<close>.
  An exception after the code is stored leaves it stored and shows the form again.
\<close>

definition authenticate_handler ::
  "oauth_env \<Rightarrow> int \<Rightarrow> string \<Rightarrow> auth_form \<Rightarrow> oauth_state \<Rightarrow> oauth_response \<times> oauth_state" where
  "authenticate_handler e now authCode form st =
     (case authenticateWithCredentials e (af_email form) (af_password form) of
        Inl err \<Rightarrow> (ErrorForm err (af_state form) (af_redirect_uri form), st)
      | Inr access_token \<Rightarrow>
          (let st1 = st\<lparr>sessionStore :=
                          jsmap_set (auth_code_key authCode) access_token (sessionStore st),
                        timers := timers st @ [(now + SESSION_TIMEOUT e, auth_code_key authCode)]\<rparr>;
               success = (SuccessPage authCode, st1)
           in if af_state form = Some ''mcp-auth'' then
                (case oe_url_session e (af_redirect_uri form) of
                   None \<Rightarrow> (ErrorForm TypeError (af_state form) (af_redirect_uri form), st1)
                 | Some None \<Rightarrow> success
                 | Some (Some sessionId) \<Rightarrow>
                     if sessionId = [] then success
                     else (case jsmap_get (sessionStore st1) (auth_session_key sessionId) of
                             None \<Rightarrow> success
                           | Some sessionData \<Rightarrow>
                               if \<not> truthy sessionData then success
                               else (Redirect (get_prop sessionData ''redirectUri'')
                                       (code_and_state authCode
                                          (get_prop sessionData ''originalState'')),
                                     st1\<lparr>sessionStore :=
                                            jsmap_delete (auth_session_key sessionId)
                                              (sessionStore st1)\<rparr>)))
              else (Redirect (field_value (af_redirect_uri form))
                      (code_and_state authCode (field_value (af_state form))), st1)))"

subsection \<open>POST /token\<close>

record token_request =
  tr_grant_type :: "string option"
  tr_code :: "string option"
  tr_redirect_uri :: "string option"
  tr_client_id :: "string option"

definition oauth_error :: "int \<Rightarrow> string \<Rightarrow> string \<Rightarrow> oauth_response" where
  "oauth_error st err description =
     res_json st [(''error'', JStr err), (''error_description'', JStr description)]"

definition invalid_grant :: oauth_response where
  "invalid_grant = oauth_error 400 ''invalid_grant'' ''Authorization code is invalid or expired''"

text \<open>The request goes to the Auth0 exchange when Auth0 is configured and the client id is its own.\<close>

definition auth0_routed :: "oauth_env \<Rightarrow> token_request \<Rightarrow> bool" where
  "auth0_routed e rq =
     (case oe_auth0_client_id e of None \<Rightarrow> False | Some cid \<Rightarrow> tr_client_id rq = Some cid)"

text \<open>The handler registered first.\<close>

definition token_handler_1 ::
  "oauth_env \<Rightarrow> token_request \<Rightarrow> oauth_state \<Rightarrow> oauth_response \<times> oauth_state" where
  "token_handler_1 e rq st =
     (if tr_grant_type rq \<noteq> Some ''authorization_code''
      then (oauth_error 400 ''unsupported_grant_type''
              ''Only authorization_code grant type is supported'', st)
      else (case tr_code rq of
              None \<Rightarrow> (oauth_error 400 ''invalid_request'' ''Missing authorization code'', st)
            | Some code \<Rightarrow>
                if code = []
                then (oauth_error 400 ''invalid_request'' ''Missing authorization code'', st)
                else if auth0_routed e rq
                then (case oe_auth0_exchange e code (tr_redirect_uri rq) of
                        None \<Rightarrow> (invalid_grant, st)
                      | Some tokenData \<Rightarrow>
                          if tokenData = JUndefined \<or> tokenData = JNull
                          then (invalid_grant, st)
                          else (res_json 200
                                  [(''access_token'', get_prop tokenData ''access_token''),
                                   (''token_type'', JStr ''Bearer''),
                                   (''expires_in'',
                                      if truthy (get_prop tokenData ''expires_in'')
                                      then get_prop tokenData ''expires_in''
                                      else JNum (Fin 3600)),
                                   (''scope'', get_prop tokenData ''scope'')], st))
                else (case jsmap_get (sessionStore st) (auth_code_key code) of
                        None \<Rightarrow> (invalid_grant, st)
                      | Some authCode \<Rightarrow>
                          if \<not> truthy authCode then (invalid_grant, st)
                          else (res_json 200
                                  [(''access_token'', get_prop authCode ''access_token''),
                                   (''token_type'', JStr ''Bearer''),
                                   (''expires_in'', JNum (Fin 3600))],
                                st\<lparr>sessionStore :=
                                     jsmap_delete (auth_code_key code) (sessionStore st)\<rparr>))))"

text \<open>The handler registered second, for the same method and path.\<close>

definition token_handler_2 ::
  "oauth_env \<Rightarrow> token_request \<Rightarrow> oauth_state \<Rightarrow> oauth_response \<times> oauth_state" where
  "token_handler_2 e rq st =
     (if tr_grant_type rq \<noteq> Some ''authorization_code''
      then (oauth_error 400 ''unsupported_grant_type''
              ''Only authorization_code grant type is supported'', st)
      else (case tr_code rq of
              None \<Rightarrow> (oauth_error 400 ''invalid_request'' ''Missing required parameters'', st)
            | Some code \<Rightarrow>
                if code = [] \<or> falsy_field (tr_client_id rq)
                then (oauth_error 400 ''invalid_request'' ''Missing required parameters'', st)
                else (case jsmap_get (sessionStore st) (auth_code_key code) of
                        None \<Rightarrow> (invalid_grant, st)
                      | Some storedToken \<Rightarrow>
                          if \<not> truthy storedToken then (invalid_grant, st)
                          else if \<not> verifyToken e storedToken
                          then (oauth_error 400 ''invalid_grant''
                                  ''Authorization code token is no longer valid'',
                                st\<lparr>sessionStore :=
                                     jsmap_delete (auth_code_key code) (sessionStore st)\<rparr>)
                          else (res_json 200
                                  [(''access_token'', storedToken),
                                   (''token_type'', JStr ''Bearer''),
                                   (''expires_in'', JNum (Fin 3600)),
                                   (''scope'', JStr ''read write'')],
                                st\<lparr>sessionStore :=
                                     jsmap_delete (auth_code_key code) (sessionStore st)\<rparr>))))"

text \<open>
  Express runs the handlers registered for a method and path in the order of their
  registration, and a handler that answers without calling \<open>next\<close> ends the chain. The
  handlers here do not take \<open>next\<close>, so the one registered first answers; with no handler
  the request is not answered by the route.
\<close>

definition express_route ::
  "('rq \<Rightarrow> 'st \<Rightarrow> 'rs \<times> 'st) list \<Rightarrow> 'rq \<Rightarrow> 'st \<Rightarrow> ('rs \<times> 'st) option" where
  "express_route handlers rq st =
     (case handlers of [] \<Rightarrow> None | h # later \<Rightarrow> Some (h rq st))"

definition post_token ::
  "oauth_env \<Rightarrow> token_request \<Rightarrow> oauth_state \<Rightarrow> (oauth_response \<times> oauth_state) option" where
  "post_token e rq st = express_route [token_handler_1 e, token_handler_2 e] rq st"

text \<open>The two requests at a given time: the timers due by then have run.\<close>

definition post_authenticate_at ::
  "oauth_env \<Rightarrow> int \<Rightarrow> string \<Rightarrow> auth_form \<Rightarrow> oauth_state \<Rightarrow> oauth_response \<times> oauth_state" where
  "post_authenticate_at e now authCode form st =
     authenticate_handler e now authCode form (run_timers now st)"

definition post_token_at ::
  "oauth_env \<Rightarrow> int \<Rightarrow> token_request \<Rightarrow> oauth_state
     \<Rightarrow> (oauth_response \<times> oauth_state) option" where
  "post_token_at e now rq st = post_token e rq (run_timers now st)"

subsection \<open>POST /register and GET /callback\<close>

text \<open>
  The other two handlers that write to \<open>sessionStore\<close>. (GET /authorize is answered
  by the handler registered first, which stores nothing.) \<open>redirect_uris\<close> is a
  single value or an array; \<open>rnd\<close> is the random session id. The answer of
  /register is the static client information, of which the scalar fields are kept; the
  two closing pages of /callback differ in wording only.
\<close>

datatype redirect_uris = UriValue jsval | UriArray "jsval list"

record register_request =
  rr_client_name :: jsval
  rr_redirect_uris :: redirect_uris

definition callback_session_key :: "string \<Rightarrow> string" where
  "callback_session_key s = ''callback_session:'' @ s"

definition register_handler ::
  "oauth_env \<Rightarrow> int \<Rightarrow> string \<Rightarrow> register_request \<Rightarrow> oauth_state
     \<Rightarrow> oauth_response \<times> oauth_state" where
  "register_handler e now rnd rq st =
     (if (case rr_redirect_uris rq of UriValue v \<Rightarrow> \<not> truthy v | UriArray vs \<Rightarrow> False)
         \<or> \<not> truthy (rr_client_name rq)
      then (oauth_error 400 ''invalid_client_metadata''
              ''Missing required parameters: redirect_uris and client_name'', st)
      else (let dynamicCallbackUrl =
                  (case rr_redirect_uris rq of
                     UriValue v \<Rightarrow> v
                   | UriArray vs \<Rightarrow> (case vs of [] \<Rightarrow> JUndefined | v # later \<Rightarrow> v))
            in (res_json 200
                  [(''client_id'', JStr ''rezoomex-mcp-client''),
                   (''client_secret'', JStr ''not-used-for-rezoomex''),
                   (''client_name'', rr_client_name rq),
                   (''token_endpoint_auth_method'', JStr ''client_secret_post'')],
                st\<lparr>sessionStore :=
                     jsmap_set (callback_session_key rnd) dynamicCallbackUrl (sessionStore st),
                   timers := timers st @ [(now + SESSION_TIMEOUT e, callback_session_key rnd)]\<rparr>)))"

record callback_request =
  cb_state :: "string option"
  cb_code :: "string option"
  cb_session :: "string option"

definition callback_handler ::
  "callback_request \<Rightarrow> oauth_state \<Rightarrow> oauth_response \<times> oauth_state" where
  "callback_handler rq st =
     (let page = (CompletePage, st)
      in case cb_session rq of
           None \<Rightarrow> page
         | Some session \<Rightarrow>
             if session = [] then page
             else (case jsmap_get (sessionStore st) (auth_session_key session) of
                     None \<Rightarrow> page
                   | Some sessionData \<Rightarrow>
                       (case cb_code rq of
                          None \<Rightarrow> page
                        | Some code \<Rightarrow>
                            if truthy sessionData \<and> code \<noteq> []
                            then (Redirect (get_prop sessionData ''redirectUri'')
                                    (code_and_state code (get_prop sessionData ''originalState'')),
                                  st\<lparr>sessionStore :=
                                       jsmap_delete (auth_session_key session) (sessionStore st)\<rparr>)
                            else page)))"

text \<open>The broker's history as a sequence of timed requests.\<close>

datatype oauth_event =
    EvAuthenticate string auth_form
  | EvToken token_request
  | EvRegister string register_request
  | EvCallback callback_request

fun oauth_step :: "oauth_env \<Rightarrow> int \<times> oauth_event \<Rightarrow> oauth_state \<Rightarrow> oauth_state" where
  "oauth_step e (now, EvAuthenticate authCode form) st =
     snd (post_authenticate_at e now authCode form st)"
| "oauth_step e (now, EvToken rq) st =
     (case post_token_at e now rq st of None \<Rightarrow> run_timers now st | Some r \<Rightarrow> snd r)"
| "oauth_step e (now, EvRegister rnd rq) st =
     snd (register_handler e now rnd rq (run_timers now st))"
| "oauth_step e (now, EvCallback rq) st =
     snd (callback_handler rq (run_timers now st))"

fun oauth_run :: "oauth_env \<Rightarrow> (int \<times> oauth_event) list \<Rightarrow> oauth_state \<Rightarrow> oauth_state" where
  "oauth_run e [] st = st"
| "oauth_run e (ev # evs) st = oauth_run e evs (oauth_step e ev st)"

text \<open>The event issues the code \<open>c\<close>.\<close>

fun issues :: "string \<Rightarrow> int \<times> oauth_event \<Rightarrow> bool" where
  "issues c (now, EvAuthenticate authCode form) = (authCode = c)"
| "issues c (now, ev) = False"

definition redeems :: "oauth_env \<Rightarrow> string \<Rightarrow> token_request \<Rightarrow> bool" where
  "redeems e c rq =
     (tr_grant_type rq = Some ''authorization_code'' \<and> tr_code rq = Some c \<and> c \<noteq> []
      \<and> \<not> auth0_routed e rq)"

text \<open>Stub collaborators for concrete runs of the broker.\<close>

definition stub_credentials :: "string option \<Rightarrow> string option \<Rightarrow> credentials_reply" where
  "stub_credentials email password =
     (if email = Some ''alice@example.com'' \<and> password = Some ''secret''
      then CredentialsReply 200 (JObj [(''access_token'', JStr ''token-alice'')])
      else CredentialsError \<lparr>ae_status = Some 401, ae_code = None,
                              ae_message = ''Request failed with status code 401''\<rparr>)"

definition stub_exchange :: "string \<Rightarrow> string option \<Rightarrow> jsval option" where
  "stub_exchange c uri = None"

definition stub_no_session :: "string option \<Rightarrow> string option option" where
  "stub_no_session uri = Some None"

definition revoked_users_me :: "jsval \<Rightarrow> upstream_reply" where
  "revoked_users_me tok = NoReply"

definition stub_oauth_env :: oauth_env where
  "stub_oauth_env =
     \<lparr>oe_session_timeout_var = None, oe_auth0_client_id = None,
      oe_auth0_exchange = stub_exchange, oe_credentials = stub_credentials,
      oe_users_me = stub_users_me, oe_url_session = stub_no_session\<rparr>"

definition revoked_oauth_env :: oauth_env where
  "revoked_oauth_env =
     \<lparr>oe_session_timeout_var = None, oe_auth0_client_id = None,
      oe_auth0_exchange = stub_exchange, oe_credentials = stub_credentials,
      oe_users_me = revoked_users_me, oe_url_session = stub_no_session\<rparr>"

definition auth0_oauth_env :: oauth_env where
  "auth0_oauth_env =
     \<lparr>oe_session_timeout_var = None, oe_auth0_client_id = Some ''auth0-client'',
      oe_auth0_exchange = stub_exchange, oe_credentials = stub_credentials,
      oe_users_me = stub_users_me, oe_url_session = stub_no_session\<rparr>"

definition empty_oauth_state :: oauth_state where
  "empty_oauth_state = \<lparr>sessionStore = [], timers = []\<rparr>"

definition alice_form :: auth_form where
  "alice_form =
     \<lparr>af_email = Some ''alice@example.com'', af_password = Some ''secret'',
      af_state = Some ''mcp-auth'', af_redirect_uri = Some ''http://localhost:3000/callback''\<rparr>"

definition auth0_code_request :: "string \<Rightarrow> token_request" where
  "auth0_code_request c =
     \<lparr>tr_grant_type = Some ''authorization_code'', tr_code = Some c,
      tr_redirect_uri = None, tr_client_id = Some ''auth0-client''\<rparr>"

definition code_request :: "string \<Rightarrow> token_request" where
  "code_request c =
     \<lparr>tr_grant_type = Some ''authorization_code'', tr_code = Some c,
      tr_redirect_uri = None, tr_client_id = Some ''rzmx-client''\<rparr>"

section \<open>Facts about the Map operations\<close>

lemma map_of_jsmap_set: "map_of (jsmap_set k v m) = (map_of m)(k \<mapsto> v)"
  by (induction m) (auto simp: fun_eq_iff)

lemma map_of_jsmap_delete: "map_of (jsmap_delete k m) = (map_of m)(k := None)"
  by (induction m) (auto simp: jsmap_delete_def fun_eq_iff)

lemma jsmap_keys_dom: "jsmap_keys m = dom (map_of m)"
  by (simp add: jsmap_keys_def dom_map_of_conv_image_fst)

lemma jsmap_keys_set: "jsmap_keys (jsmap_set k v m) = insert k (jsmap_keys m)"
  by (simp add: jsmap_keys_dom map_of_jsmap_set)

lemma jsmap_keys_delete: "jsmap_keys (jsmap_delete k m) = jsmap_keys m - {k}"
  by (auto simp: jsmap_keys_def jsmap_delete_def)

lemma jsmap_keys_mutate: "jsmap_keys (jsmap_mutate k v m) = jsmap_keys m"
  by (induction m) (auto simp: jsmap_keys_def jsmap_mutate_def)

lemma jsmap_has_keys: "jsmap_has m k = (k \<in> jsmap_keys m)"
  by (auto simp: jsmap_has_def jsmap_keys_dom)

lemma jsmap_get_keys: "jsmap_get m k = Some v \<Longrightarrow> k \<in> jsmap_keys m"
  by (auto simp: jsmap_get_def jsmap_keys_dom)

section \<open>The session registry: key sets of the two maps\<close>

lemma inv_new: "registry_inv (new_AuthManager a b)"
  by (simp add: registry_inv_def new_AuthManager_def jsmap_keys_def)

lemma inv_authenticateWithToken:
  "registry_inv am \<Longrightarrow> registry_inv (snd (authenticateWithToken am now tok sid attempt))"
  by (auto simp: registry_inv_def authenticateWithToken_def jsmap_keys_set
           split: option.splits prod.splits)

lemma inv_getClient:
  "registry_inv am \<Longrightarrow> registry_inv (snd (getClient am now sid))"
  by (auto simp: registry_inv_def getClient_def jsmap_keys_set
           dest: jsmap_get_keys split: option.splits)

lemma inv_clearSession: "registry_inv am \<Longrightarrow> registry_inv (clearSession am sid)"
  by (auto simp: registry_inv_def clearSession_def Let_def jsmap_keys_delete jsmap_has_keys)

lemma inv_cleanup_loop:
  "registry_inv am \<Longrightarrow> registry_inv (cleanupExpiredSessions_loop now es am)"
proof (induction es arbitrary: am)
  case Nil
  then show ?case by simp
next
  case (Cons e es)
  obtain sid s where e: "e = (sid, s)" by (cases e)
  have "registry_inv (am\<lparr>sessions := jsmap_delete sid (sessions am),
                          clients := jsmap_delete sid (clients am)\<rparr>)"
    using Cons.prems by (simp add: registry_inv_def jsmap_keys_delete)
  with Cons show ?case by (simp add: e)
qed

lemma inv_cleanupExpiredSessions:
  "registry_inv am \<Longrightarrow> registry_inv (cleanupExpiredSessions am now)"
  by (simp add: cleanupExpiredSessions_def inv_cleanup_loop)

lemma inv_validate_loop:
  "registry_inv am \<Longrightarrow> registry_inv (snd (validateAllSessions_loop replies es am res))"
proof (induction es arbitrary: am res)
  case Nil
  then show ?case by simp
next
  case (Cons e es)
  obtain sid c where e: "e = (sid, c)" by (cases e)
  obtain ok c' where v: "validateSession c (replies sid) = (ok, c')"
    by (cases "validateSession c (replies sid)")
  let ?am1 = "am\<lparr>clients := jsmap_mutate sid c' (clients am)\<rparr>"
  have i1: "registry_inv ?am1"
    using Cons.prems by (simp add: registry_inv_def jsmap_keys_mutate)
  then have i2: "registry_inv (clearSession ?am1 sid)" by (rule inv_clearSession)
  show ?case
    using Cons.IH [OF i1] Cons.IH [OF i2] by (simp add: e v Let_def)
qed

lemma inv_validateAllSessions:
  "registry_inv am \<Longrightarrow> registry_inv (snd (validateAllSessions am replies))"
  by (simp add: validateAllSessions_def inv_validate_loop)

lemma inv_cleanup: "registry_inv (cleanup am)"
  by (simp add: registry_inv_def cleanup_def jsmap_keys_def)

lemma inv_step: "registry_inv am \<Longrightarrow> registry_inv (am_step op am)"
proof (cases op)
  case (Pair now o1)
  assume "registry_inv am"
  then show ?thesis
    unfolding Pair
    by (cases o1) (simp_all add: inv_authenticateWithToken inv_getClient inv_clearSession
        inv_cleanupExpiredSessions inv_validateAllSessions inv_cleanup)
qed

lemma inv_run: "registry_inv am \<Longrightarrow> registry_inv (am_run ops am)"
  by (induction ops arbitrary: am) (simp_all add: inv_step)

text \<open>
  C10. After any sequence of registry operations (authenticateWithToken, getClient,
  clearSession, cleanupExpiredSessions, validateAllSessions, cleanup) on a fresh
  AuthManager, the key set of the sessions map equals the key set of the clients map.
\<close>

theorem sessions_keys_eq_clients_keys:
  "jsmap_keys (sessions (am_run ops (new_AuthManager env_session env_temp)))
     = jsmap_keys (clients (am_run ops (new_AuthManager env_session env_temp)))"
  using inv_run [OF inv_new] by (simp add: registry_inv_def)

theorem sessions_keys_eq_clients_keys_witness:
  "jsmap_keys (sessions (am_run
      [(1, OpAuthenticateWithToken (JStr ''t1'') ''s1'' (Some (Reply 200 JNull))),
       (2, OpAuthenticateWithToken (JStr ''t2'') ''s2'' (Some NoReply)),
       (3, OpGetClient (Some ''s1'')),
       (4, OpValidateAllSessions (\<lambda>sid. NoReply)),
       (5, OpCleanupExpiredSessions)]
      (new_AuthManager None None)))
   = jsmap_keys (clients (am_run
      [(1, OpAuthenticateWithToken (JStr ''t1'') ''s1'' (Some (Reply 200 JNull))),
       (2, OpAuthenticateWithToken (JStr ''t2'') ''s2'' (Some NoReply)),
       (3, OpGetClient (Some ''s1'')),
       (4, OpValidateAllSessions (\<lambda>sid. NoReply)),
       (5, OpCleanupExpiredSessions)]
      (new_AuthManager None None)))"
  by (rule sessions_keys_eq_clients_keys)

section \<open>The session registry: failed creation, lookup\<close>

text \<open>
  C6. When the upstream validation of a bearer credential fails, or the attempt throws,
  authenticateWithToken returns null and the registry is unchanged: no entry is added
  to the sessions map or to the clients map.
\<close>

theorem authenticateWithToken_failure_stores_nothing:
  assumes "case attempt of None \<Rightarrow> True
           | Some reply \<Rightarrow> \<not> fst (validateSession (RezoomexApiClient tok) reply)"
  shows "authenticateWithToken am now tok sessionId attempt = (None, am)"
  using assms by (auto simp: authenticateWithToken_def split: option.splits prod.splits)

theorem authenticateWithToken_failure_witness:
  "\<not> fst (validateSession (RezoomexApiClient (JStr ''stale'')) NoReply)
   \<and> authenticateWithToken
        (snd (authenticateWithToken (new_AuthManager None None) 5 (JStr ''good'') ''s1''
               (Some (Reply 200 JNull))))
        9 (JStr ''stale'') ''s2'' (Some NoReply)
     = (None, \<lparr>sessions = [(''s1'', \<lparr>createdAt = 5\<rparr>)],
              clients = [(''s1'', \<lparr>bearerToken = JStr ''good'', authenticated = True,
                                   userInfo = JNull\<rparr>)],
              tempTokens = [], sessionTimeout = 86400000, tempTokenTimeout = 300000\<rparr>)"
  using authenticateWithToken_failure_stores_nothing
          [where attempt = "Some NoReply" and tok = "JStr ''stale''" and now = 9
             and sessionId = "''s2''"
             and am = "snd (authenticateWithToken (new_AuthManager None None) 5 (JStr ''good'')
                        ''s1'' (Some (Reply 200 JNull)))"]
  by (simp add: authenticateWithToken_def new_AuthManager_def env_or_default_def
                RezoomexApiClient_def)

lemma getClient_unregistered:
  "jsmap_get (clients am) sid = None \<Longrightarrow> getClient am now (Some sid) = (None, am)"
  by (simp add: getClient_def)

text \<open>
  C5 (the code at the failing input). With the default 24 hour timeout, a session created
  at time 0 is still returned by getClient 25 hours later when no sweep has run in
  between, and its createdAt is refreshed.
\<close>

theorem getClient_returns_session_past_ttl:
  "sessionTimeout (new_AuthManager None None) = 86400000
   \<and> fst (getClient
        (snd (authenticateWithToken (new_AuthManager None None) 0 (JStr ''tok'') ''s1''
               (Some (Reply 200 JNull))))
        90000000 (Some ''s1''))
     = Some \<lparr>bearerToken = JStr ''tok'', authenticated = True, userInfo = JNull\<rparr>
   \<and> jsmap_get (sessions (snd (getClient
        (snd (authenticateWithToken (new_AuthManager None None) 0 (JStr ''tok'') ''s1''
               (Some (Reply 200 JNull))))
        90000000 (Some ''s1'')))) ''s1'' = Some \<lparr>createdAt = 90000000\<rparr>"
  by (simp add: getClient_def authenticateWithToken_def new_AuthManager_def env_or_default_def
                RezoomexApiClient_def jsmap_get_def)

section \<open>The tool catalog and argument validation\<close>

lemma MCPTools_entries: "MCPTools = map (\<lambda>t. (name t, t)) toolDefinitions"
  by code_simp

lemma getToolDefinitions_eq: "getToolDefinitions = toolDefinitions"
  by (simp add: getToolDefinitions_def MCPTools_entries comp_def)

lemma hasTools_getTool: "hasTools n = (getTool n \<noteq> None)"
  by (simp add: hasTools_def getTool_def jsmap_has_def jsmap_get_def)

lemma check_required_obj:
  "check_required rs (JObj fs) errs
     = Inr (errs @ map MissingRequired (filter (field_absent fs) rs))"
  by (induction rs arbitrary: errs) (auto simp: field_absent_def split: option.splits)

lemma check_properties_obj:
  "check_properties coerce ps (JObj fs) errs
     = Inr (errs @ concat (map (present_errors coerce fs) ps))"
  by (induction ps arbitrary: errs) (auto simp: present_errors_def split: option.splits)

lemma field_violates_errors:
  "field_violates coerce fs p \<Longrightarrow> present_errors coerce fs p \<noteq> []"
  by (auto simp: field_violates_def present_errors_def field_errors_def split: option.splits)

lemma validate_violation:
  assumes t: "getTool toolName = Some t" and v: "schema_violation coerce t fs"
  shows "\<exists>errs. errs \<noteq> [] \<and> validateToolInput coerce toolName (JObj fs) = Inl (ValidationErrors errs)"
proof -
  let ?e1 = "map MissingRequired (filter (field_absent fs) (required (inputSchema t)))"
  let ?e2 = "concat (map (present_errors coerce fs) (properties (inputSchema t)))"
  have "?e1 @ ?e2 \<noteq> []"
  proof (cases "list_ex (field_absent fs) (required (inputSchema t))")
    case True
    then have "filter (field_absent fs) (required (inputSchema t)) \<noteq> []"
      by (auto simp: list_ex_iff filter_empty_conv)
    then show ?thesis by simp
  next
    case False
    with v have "list_ex (field_violates coerce fs) (properties (inputSchema t))"
      by (simp add: schema_violation_def)
    then obtain p where "p \<in> set (properties (inputSchema t))" "field_violates coerce fs p"
      by (auto simp: list_ex_iff)
    then have "?e2 \<noteq> []"
      using field_violates_errors by fastforce
    then show ?thesis by simp
  qed
  then show ?thesis
    by (simp add: validateToolInput_def t check_required_obj check_properties_obj)
qed

lemma getTool_get_project_overview:
  "getTool ''get_project_overview''
     = Some (mk_tool ''get_project_overview'' [(''project_id'', string_field)] [''project_id''])"
  by code_simp


lemma callTool_aborts:
  assumes "validateToolInput coerce toolName args = Inl e"
  shows "callTool coerce up toolName args cl = (Inl e, [])"
proof (cases "getTool toolName")
  case None
  with assms show ?thesis
    by (simp add: callTool_def hasTools_getTool validateToolInput_def)
next
  case (Some t)
  with assms show ?thesis
    by (simp add: callTool_def hasTools_getTool)
qed

text \<open>
  C7. In callTool, argument validation runs before any upstream operation: whenever
  validateToolInput fails, callTool fails with the same error and makes no call on the
  upstream handle. Validation fails whenever a required field is missing, a field
  present has the wrong primitive type (string or integer), or lies outside a declared
  minimum or maximum.
\<close>

theorem callTool_validation_precedes_upstream:
  "(validateToolInput coerce toolName args = Inl e
      \<longrightarrow> callTool coerce up toolName args cl = (Inl e, []))
   \<and> (getTool toolName = Some t \<and> schema_violation coerce t fs
      \<longrightarrow> (\<exists>errs. errs \<noteq> [] \<and>
             callTool coerce up toolName (JObj fs) cl = (Inl (ValidationErrors errs), [])))"
proof (intro conjI impI)
  assume "validateToolInput coerce toolName args = Inl e"
  then show "callTool coerce up toolName args cl = (Inl e, [])"
    by (rule callTool_aborts)
next
  assume "getTool toolName = Some t \<and> schema_violation coerce t fs"
  then obtain errs where "errs \<noteq> []"
    and "validateToolInput coerce toolName (JObj fs) = Inl (ValidationErrors errs)"
    using validate_violation by blast
  then show "\<exists>errs. errs \<noteq> [] \<and>
      callTool coerce up toolName (JObj fs) cl = (Inl (ValidationErrors errs), [])"
    using callTool_aborts by blast
qed

theorem callTool_validation_witness:
  "getTool ''get_project_overview''
     = Some (mk_tool ''get_project_overview'' [(''project_id'', string_field)] [''project_id''])
   \<and> schema_violation (\<lambda>v. NaN)
        (mk_tool ''get_project_overview'' [(''project_id'', string_field)] [''project_id'']) []
   \<and> validateToolInput (\<lambda>v. NaN) ''get_project_overview'' (JObj [])
        = Inl (ValidationErrors [MissingRequired ''project_id''])
   \<and> callTool (\<lambda>v. NaN) (\<lambda>c m as. Inr JNull) ''get_project_overview'' (JObj [])
        (Some (RezoomexApiClient (JStr ''t'')))
        = (Inl (ValidationErrors [MissingRequired ''project_id'']), [])"
proof -
  have t: "getTool ''get_project_overview''
     = Some (mk_tool ''get_project_overview'' [(''project_id'', string_field)] [''project_id''])"
    by (rule getTool_get_project_overview)
  have v: "schema_violation (\<lambda>v. NaN)
        (mk_tool ''get_project_overview'' [(''project_id'', string_field)] [''project_id'']) []"
    by (simp add: schema_violation_def mk_tool_def field_absent_def)
  have val: "validateToolInput (\<lambda>v. NaN) ''get_project_overview'' (JObj [])
        = Inl (ValidationErrors [MissingRequired ''project_id''])"
    by (simp add: validateToolInput_def t mk_tool_def)
  from callTool_validation_precedes_upstream
         [where coerce = "\<lambda>v. NaN" and toolName = "''get_project_overview''"
            and args = "JObj []" and e = "ValidationErrors [MissingRequired ''project_id'']"
            and up = "\<lambda>c m as. Inr JNull" and cl = "Some (RezoomexApiClient (JStr ''t''))"]
       val
  have "callTool (\<lambda>v. NaN) (\<lambda>c m as. Inr JNull) ''get_project_overview'' (JObj [])
        (Some (RezoomexApiClient (JStr ''t'')))
        = (Inl (ValidationErrors [MissingRequired ''project_id'']), [])"
    by blast
  with t v val show ?thesis by blast
qed

lemma callTool_valid_reaches_upstream:
  "callTool (\<lambda>v. NaN) (\<lambda>c m as. Inr JNull) ''get_project_overview''
     (JObj [(''project_id'', JStr ''39SQ'')]) (Some (RezoomexApiClient (JStr ''t'')))
   = (Inr JNull, [UpCall (JStr ''t'') ''getProjectOverview'' [JStr ''39SQ'']])"
  by (simp add: callTool_def hasTools_getTool getTool_get_project_overview
        validateToolInput_def mk_tool_def string_field_def field_errors_def
        callTool_switch_def call_with_def read_args_def invoke_def RezoomexApiClient_def)

lemma validate_bounds_and_types:
  "validateToolInput (\<lambda>v. NaN) ''get_story_range''
     (JObj [(''start_number'', JNum (Fin 0)), (''end_number'', JStr ''five''),
            (''project_id'', JStr ''39SQ''), (''persona_id'', JNum (Fin 7))])
   = Inl (ValidationErrors [BelowMinimum ''start_number'' 1, NotInteger ''end_number'',
                            NotString ''persona_id''])"
  by code_simp

text \<open>The two validation cases of the repository's own test script (test.js, test 3).\<close>

lemma validateToolInput_test_cases:
  "validateToolInput stub_coerce ''list_user_stories''
     (JObj [(''project_id'', JStr ''39SQ''), (''persona_id'', JStr ''39SQ-P-003'')]) = Inr ()
   \<and> validateToolInput stub_coerce ''get_story_range''
     (JObj [(''start_number'', JStr ''invalid''), (''end_number'', JNum (Fin 5))])
     = Inl (ValidationErrors [MissingRequired ''project_id'', MissingRequired ''persona_id'',
                              NotInteger ''start_number''])"
  by code_simp

section \<open>The JSON-RPC endpoints: session keys and tool listings\<close>

text \<open>
  C1 (the code at the failing input). On POST /sse the authenticate tool stores every
  handle under the one session id \<open>mcp-default\<close>, whoever authenticates. Alice
  authenticates, then Bob; the call Alice then makes with the session id she was given
  runs on the handle that carries Bob's credential.
\<close>

theorem sse_shared_session_crosses_users:
  "sse_serve stub_env
     [(1, None, authenticate_request ''alice@example.com''),
      (2, None, authenticate_request ''bob@example.com''),
      (3, Some ''mcp-default'', get_user_info_request)]
     (new_AuthManager None None)
   = [((200, RpcResult (JNum (Fin 1))
              (AuthSuccess ''mcp-default'' (JObj [(''id'', JStr ''alice'')]))), []),
      ((200, RpcResult (JNum (Fin 1))
              (AuthSuccess ''mcp-default'' (JObj [(''id'', JStr ''bob'')]))), []),
      ((200, RpcResult (JNum (Fin 2)) (TextContent (JStr ''token-bob''))),
       [UpCall (JStr ''token-bob'') ''getUserInfo'' []])]"
  by code_simp

lemma length_availableTools: "length (availableTools toolDefinitions) = length toolDefinitions - 1"
  by code_simp

lemma length_toolDefinitions: "length toolDefinitions = 25"
  by code_simp

lemma method_is_object:
  "get_prop request ''method'' = JStr m \<Longrightarrow> request \<noteq> JUndefined \<and> request \<noteq> JNull"
  by (cases request) auto

text \<open>
  C8 (as stated, refuted). A tools/list request on POST /sse returns the whole catalog,
  the authenticate tool included: the list is not the catalog with that tool removed and
  its length is not the catalog size minus one.
\<close>

theorem sse_tools_list_includes_authenticate:
  "fst (sse_post stub_env 0 None tools_list_request (new_AuthManager None None))
     = (200, RpcResult (JNum (Fin 3)) (ToolList getToolDefinitions))
   \<and> getToolDefinitions \<noteq> availableTools getToolDefinitions
   \<and> length getToolDefinitions \<noteq> length getToolDefinitions - 1"
  by code_simp


text \<open>
  C8 (amended). A tools/list request on POST /v1/sse that carries a bearer token the
  upstream accepts returns the catalog with the authenticate tool removed, as does the
  SDK server's listing, and that list has the catalog size minus one entries; a
  tools/list request on POST /sse returns the whole catalog.
\<close>

theorem tools_list_by_transport:
  assumes "get_prop request ''method'' = JStr ''tools/list''"
  shows "(verifyAccessToken e tok = Inr userId \<longrightarrow>
            v1_sse_post e now rnd (Some (''Bearer '' @ tok)) request am
              = ((200, RpcResult (get_prop request ''id'')
                         (ToolList (availableTools toolDefinitions))), am, []))
         \<and> mcpServer_list_tools = availableTools toolDefinitions
         \<and> length (availableTools toolDefinitions) = length toolDefinitions - 1
         \<and> sse_post e now x_session_id request am
              = ((200, RpcResult (get_prop request ''id'') (ToolList toolDefinitions)), am, [])"
proof (intro conjI impI)
  have obj: "request \<noteq> JUndefined \<and> request \<noteq> JNull"
    using assms by (rule method_is_object)
  show "sse_post e now x_session_id request am
          = ((200, RpcResult (get_prop request ''id'') (ToolList toolDefinitions)), am, [])"
    using assms obj by (simp add: sse_post_def getToolDefinitions_eq)
  show "mcpServer_list_tools = availableTools toolDefinitions"
    by (simp add: mcpServer_list_tools_def getToolDefinitions_eq)
  show "length (availableTools toolDefinitions) = length toolDefinitions - 1"
    by (rule length_availableTools)
  assume "verifyAccessToken e tok = Inr userId"
  then show "v1_sse_post e now rnd (Some (''Bearer '' @ tok)) request am
              = ((200, RpcResult (get_prop request ''id'')
                         (ToolList (availableTools toolDefinitions))), am, [])"
    using assms obj by (simp add: v1_sse_post_def getToolDefinitions_eq)
qed

theorem tools_list_by_transport_witness:
  "get_prop tools_list_request ''method'' = JStr ''tools/list''
   \<and> verifyAccessToken stub_env ''token-alice'' = Inr (JStr ''alice'')
   \<and> v1_sse_post stub_env 0 ''r4nd0m'' (Some ''Bearer token-alice'') tools_list_request
        (new_AuthManager None None)
        = ((200, RpcResult (JNum (Fin 3)) (ToolList (availableTools toolDefinitions))),
           new_AuthManager None None, [])
   \<and> length (availableTools toolDefinitions) = 24
   \<and> sse_post stub_env 0 None tools_list_request (new_AuthManager None None)
        = ((200, RpcResult (JNum (Fin 3)) (ToolList toolDefinitions)),
           new_AuthManager None None, [])"
proof -
  have m: "get_prop tools_list_request ''method'' = JStr ''tools/list''"
    by (simp add: tools_list_request_def)
  have i: "get_prop tools_list_request ''id'' = JNum (Fin 3)"
    by (simp add: tools_list_request_def)
  have v: "verifyAccessToken stub_env ''token-alice'' = Inr (JStr ''alice'')"
    by (simp add: verifyAccessToken_def stub_env_def stub_users_me_def)
  have n: "length toolDefinitions = 25" by (rule length_toolDefinitions)
  note t = tools_list_by_transport [OF m, where e = stub_env and tok = "''token-alice''"
         and userId = "JStr ''alice''" and now = 0 and rnd = "''r4nd0m''"
         and am = "new_AuthManager None None" and x_session_id = None]
  from t v have a: "v1_sse_post stub_env 0 ''r4nd0m'' (Some (''Bearer '' @ ''token-alice''))
        tools_list_request (new_AuthManager None None)
        = ((200, RpcResult (get_prop tools_list_request ''id'')
                   (ToolList (availableTools toolDefinitions))), new_AuthManager None None, [])"
    by blast
  from t have b: "length (availableTools toolDefinitions) = length toolDefinitions - 1"
    by blast
  from t have c: "sse_post stub_env 0 None tools_list_request (new_AuthManager None None)
        = ((200, RpcResult (get_prop tools_list_request ''id'') (ToolList toolDefinitions)),
           new_AuthManager None None, [])"
    by blast
  have b': "length (availableTools toolDefinitions) = 24"
    unfolding b n by simp
  from a have a': "v1_sse_post stub_env 0 ''r4nd0m'' (Some ''Bearer token-alice'')
        tools_list_request (new_AuthManager None None)
        = ((200, RpcResult (JNum (Fin 3))
                   (ToolList (availableTools toolDefinitions))), new_AuthManager None None, [])"
    by (simp add: i)
  from c have c': "sse_post stub_env 0 None tools_list_request (new_AuthManager None None)
        = ((200, RpcResult (JNum (Fin 3)) (ToolList toolDefinitions)),
           new_AuthManager None None, [])"
    by (simp add: i)
  from m v a' b' c' show ?thesis by blast
qed

section \<open>The authorization-code broker: redemption and expiry\<close>

lemma auth_code_key_inj: "(auth_code_key c = auth_code_key c') = (c = c')"
  by (simp add: auth_code_key_def)

lemma auth_code_key_not_session:
  "auth_session_key s \<noteq> auth_code_key c" "auth_code_key c \<noteq> auth_session_key s"
  by (simp_all add: auth_code_key_def auth_session_key_def)

lemma auth_code_key_not_callback:
  "callback_session_key s \<noteq> auth_code_key c" "auth_code_key c \<noteq> callback_session_key s"
  by (simp_all add: auth_code_key_def callback_session_key_def)

lemma map_of_fire:
  "map_of (foldl (\<lambda>m t. if fst t \<le> now then jsmap_delete (snd t) m else m) m ts) k
     = (if list_ex (\<lambda>t. fst t \<le> now \<and> snd t = k) ts then None else map_of m k)"
  by (induction ts arbitrary: m) (auto simp: map_of_jsmap_delete)

lemma map_of_run_timers:
  "map_of (sessionStore (run_timers now st)) k
     = (if list_ex (\<lambda>t. fst t \<le> now \<and> snd t = k) (timers st) then None
        else map_of (sessionStore st) k)"
  by (simp add: run_timers_def map_of_fire)

lemma absent_run_timers:
  "map_of (sessionStore st) k = None \<Longrightarrow> map_of (sessionStore (run_timers now st)) k = None"
  by (simp add: map_of_run_timers)

lemma absent_token_handler_1:
  "map_of (sessionStore st) k = None \<Longrightarrow> map_of (sessionStore (snd (token_handler_1 e rq st))) k = None"
  by (auto simp: token_handler_1_def map_of_jsmap_delete split: option.splits)

lemma absent_authenticate_handler:
  assumes "map_of (sessionStore st) (auth_code_key c) = None" and "authCode \<noteq> c"
  shows "map_of (sessionStore (snd (authenticate_handler e now authCode form st))) (auth_code_key c)
           = None"
  using assms
  by (auto simp: authenticate_handler_def Let_def map_of_jsmap_set map_of_jsmap_delete
        auth_code_key_inj split: sum.splits option.splits)

lemma absent_register_handler:
  "map_of (sessionStore st) (auth_code_key c) = None
     \<Longrightarrow> map_of (sessionStore (snd (register_handler e now rnd rq st))) (auth_code_key c) = None"
  by (simp add: register_handler_def Let_def map_of_jsmap_set auth_code_key_not_callback)

lemma absent_callback_handler:
  "map_of (sessionStore st) k = None
     \<Longrightarrow> map_of (sessionStore (snd (callback_handler rq st))) k = None"
  by (auto simp: callback_handler_def Let_def map_of_jsmap_delete split: option.splits)

lemma post_token_first: "post_token e rq st = Some (token_handler_1 e rq st)"
  by (simp add: post_token_def express_route_def)

lemma absent_step:
  assumes "map_of (sessionStore st) (auth_code_key c) = None" and "\<not> issues c ev"
  shows "map_of (sessionStore (oauth_step e ev st)) (auth_code_key c) = None"
proof (cases ev)
  case (Pair now x)
  show ?thesis
  proof (cases x)
    case (EvAuthenticate authCode form)
    with assms Pair show ?thesis
      by (simp add: post_authenticate_at_def absent_authenticate_handler absent_run_timers)
  next
    case (EvToken rq)
    with assms Pair show ?thesis
      by (simp add: post_token_at_def post_token_first absent_token_handler_1 absent_run_timers)
  next
    case (EvRegister rnd rq)
    with assms Pair show ?thesis
      by (simp add: absent_register_handler absent_run_timers)
  next
    case (EvCallback rq)
    with assms Pair show ?thesis
      by (simp add: absent_callback_handler absent_run_timers)
  qed
qed

lemma absent_run:
  "map_of (sessionStore st) (auth_code_key c) = None \<Longrightarrow> list_all (\<lambda>ev. \<not> issues c ev) evs
     \<Longrightarrow> map_of (sessionStore (oauth_run e evs st)) (auth_code_key c) = None"
  by (induction evs arbitrary: st) (simp_all add: absent_step)

lemma redeem_absent:
  assumes "redeems e c rq" and "map_of (sessionStore st) (auth_code_key c) = None"
  shows "post_token e rq st = Some (invalid_grant, st)"
  using assms
  by (simp add: post_token_first token_handler_1_def redeems_def jsmap_get_def)

lemma redeem_present:
  assumes "redeems e c rq" and "map_of (sessionStore st) (auth_code_key c) = Some v" and "truthy v"
  shows "post_token e rq st
           = Some (res_json 200 [(''access_token'', get_prop v ''access_token''),
                                 (''token_type'', JStr ''Bearer''),
                                 (''expires_in'', JNum (Fin 3600))],
                   st\<lparr>sessionStore := jsmap_delete (auth_code_key c) (sessionStore st)\<rparr>)"
  using assms
  by (simp add: post_token_first token_handler_1_def redeems_def jsmap_get_def)

lemma redeem_string_credential:
  assumes "redeems e c rq" and "map_of (sessionStore st) (auth_code_key c) = Some (JStr t)"
    and "t \<noteq> []"
  shows "post_token e rq st
           = Some (Json 200 [(''token_type'', JStr ''Bearer''), (''expires_in'', JNum (Fin 3600))],
                   st\<lparr>sessionStore := jsmap_delete (auth_code_key c) (sessionStore st)\<rparr>)"
  using redeem_present [OF assms(1) assms(2)] assms(3) by (simp add: res_json_def)

lemma redeemed_code_stays_refused:
  assumes "map_of (sessionStore st) (auth_code_key c) = None"
    and "list_all (\<lambda>ev. \<not> issues c ev) evs" and "redeems e c rq"
  shows "post_token_at e now rq (oauth_run e evs st)
           = Some (invalid_grant, run_timers now (oauth_run e evs st))"
proof -
  have "map_of (sessionStore (oauth_run e evs st)) (auth_code_key c) = None"
    using assms(1) assms(2) by (rule absent_run)
  then have "map_of (sessionStore (run_timers now (oauth_run e evs st))) (auth_code_key c) = None"
    by (rule absent_run_timers)
  with assms(3) show ?thesis
    by (simp add: post_token_at_def redeem_absent)
qed

lemma consumed_code_is_absent:
  "map_of (sessionStore (st\<lparr>sessionStore := jsmap_delete (auth_code_key c) (sessionStore st)\<rparr>))
     (auth_code_key c) = None"
  by (simp add: map_of_jsmap_delete)

text \<open>
  C3 (the code at the failing input). A code is issued for the credential
  \<open>token-alice\<close>. Its first redemption is answered 200 and consumes the record, but the
  body is \<open>{token_type, expires_in}\<close>: the credential is not in it. The second
  redemption is refused with invalid_grant, so the credential is never handed out.
\<close>

theorem first_redemption_hands_out_nothing:
  "oauth_run stub_oauth_env [(0, EvAuthenticate ''abc123'' alice_form)] empty_oauth_state
     = \<lparr>sessionStore = [(''auth_code:abc123'', JStr ''token-alice'')],
        timers = [(300000, ''auth_code:abc123'')]\<rparr>
   \<and> post_token_at stub_oauth_env 1 (code_request ''abc123'')
        (oauth_run stub_oauth_env [(0, EvAuthenticate ''abc123'' alice_form)] empty_oauth_state)
     = Some (Json 200 [(''token_type'', JStr ''Bearer''), (''expires_in'', JNum (Fin 3600))],
             \<lparr>sessionStore = [], timers = [(300000, ''auth_code:abc123'')]\<rparr>)
   \<and> post_token_at stub_oauth_env 2 (code_request ''abc123'')
        (oauth_run stub_oauth_env
           [(0, EvAuthenticate ''abc123'' alice_form), (1, EvToken (code_request ''abc123''))]
           empty_oauth_state)
     = Some (Json 400 [(''error'', JStr ''invalid_grant''),
                       (''error_description'', JStr ''Authorization code is invalid or expired'')],
             \<lparr>sessionStore = [], timers = [(300000, ''auth_code:abc123'')]\<rparr>)"
  by code_simp

text \<open>
  Where the Auth0 provider is configured, a request that carries its client id goes to the
  Auth0 exchange: an issued code presented that way is refused and its record is kept.
\<close>

lemma auth0_routed_code_is_kept:
  "post_token_at auth0_oauth_env 1 (auth0_code_request ''abc123'')
     \<lparr>sessionStore = [(''auth_code:abc123'', JStr ''token-alice'')],
      timers = [(300000, ''auth_code:abc123'')]\<rparr>
   = Some (invalid_grant,
           \<lparr>sessionStore = [(''auth_code:abc123'', JStr ''token-alice'')],
            timers = [(300000, ''auth_code:abc123'')]\<rparr>)"
  by code_simp

lemma issued_state:
  "post_authenticate_at stub_oauth_env 0 ''abc123'' alice_form empty_oauth_state
     = (SuccessPage ''abc123'',
        \<lparr>sessionStore = [(''auth_code:abc123'', JStr ''token-alice'')],
         timers = [(300000, ''auth_code:abc123'')]\<rparr>)"
  by code_simp

lemma credentials_truthy:
  "authenticateWithCredentials e email password = Inr tok \<Longrightarrow> truthy tok"
  by (auto simp: authenticateWithCredentials_def split: credentials_reply.splits if_splits)

lemma issued_store:
  assumes "authenticateWithCredentials e (af_email form) (af_password form) = Inr tok"
  shows "map_of (sessionStore (snd (authenticate_handler e now c form st))) (auth_code_key c)
           = Some tok"
  using assms
  by (auto simp: authenticate_handler_def Let_def map_of_jsmap_set map_of_jsmap_delete
        auth_code_key_not_session split: option.splits)

lemma issued_timers:
  assumes "authenticateWithCredentials e (af_email form) (af_password form) = Inr tok"
  shows "timers (snd (authenticate_handler e now c form st))
           = timers st @ [(now + SESSION_TIMEOUT e, auth_code_key c)]"
  using assms
  by (auto simp: authenticate_handler_def Let_def split: option.splits)

lemma timers_run_timers: "timers (run_timers now st) = filter (\<lambda>t. \<not> fst t \<le> now) (timers st)"
  by (simp add: run_timers_def)

lemma issued_lifetime:
  assumes creds: "authenticateWithCredentials e (af_email form) (af_password form) = Inr tok"
    and fresh: "\<not> list_ex (\<lambda>t. snd t = auth_code_key c) (timers st0)"
    and rq: "redeems e c rq"
  shows "now < t0 + SESSION_TIMEOUT e \<Longrightarrow>
           post_token_at e now rq (snd (post_authenticate_at e t0 c form st0))
             = Some (res_json 200 [(''access_token'', get_prop tok ''access_token''),
                                   (''token_type'', JStr ''Bearer''),
                                   (''expires_in'', JNum (Fin 3600))],
                     (run_timers now (snd (post_authenticate_at e t0 c form st0)))
                       \<lparr>sessionStore := jsmap_delete (auth_code_key c)
                          (sessionStore (run_timers now
                             (snd (post_authenticate_at e t0 c form st0))))\<rparr>)"
    and "t0 + SESSION_TIMEOUT e \<le> now \<Longrightarrow>
           post_token_at e now rq (snd (post_authenticate_at e t0 c form st0))
             = Some (invalid_grant, run_timers now (snd (post_authenticate_at e t0 c form st0)))"
proof -
  let ?st1 = "snd (post_authenticate_at e t0 c form st0)"
  have store: "map_of (sessionStore ?st1) (auth_code_key c) = Some tok"
    using creds by (simp add: post_authenticate_at_def issued_store)
  have tm: "timers ?st1 = filter (\<lambda>t. \<not> fst t \<le> t0) (timers st0)
                            @ [(t0 + SESSION_TIMEOUT e, auth_code_key c)]"
    using creds by (simp add: post_authenticate_at_def issued_timers timers_run_timers)
  have old: "\<not> list_ex (\<lambda>t. fst t \<le> now \<and> snd t = auth_code_key c)
                 (filter (\<lambda>t. \<not> fst t \<le> t0) (timers st0))"
    using fresh by (auto simp: list_ex_iff)
  {
    assume "now < t0 + SESSION_TIMEOUT e"
    then have "map_of (sessionStore (run_timers now ?st1)) (auth_code_key c) = Some tok"
      using store old by (simp add: map_of_run_timers tm)
    with rq credentials_truthy [OF creds]
    show "post_token_at e now rq ?st1
             = Some (res_json 200 [(''access_token'', get_prop tok ''access_token''),
                                   (''token_type'', JStr ''Bearer''),
                                   (''expires_in'', JNum (Fin 3600))],
                     (run_timers now ?st1)
                       \<lparr>sessionStore := jsmap_delete (auth_code_key c)
                          (sessionStore (run_timers now ?st1))\<rparr>)"
      by (simp add: post_token_at_def redeem_present)
  next
    assume "t0 + SESSION_TIMEOUT e \<le> now"
    then have "map_of (sessionStore (run_timers now ?st1)) (auth_code_key c) = None"
      by (simp add: map_of_run_timers tm)
    with rq show "post_token_at e now rq ?st1 = Some (invalid_grant, run_timers now ?st1)"
      by (simp add: post_token_at_def redeem_absent)
  }
qed

text \<open>
  C9 (the code at the failing input). With the default timeout of 300 seconds a code is
  issued at t0 = 1000 ms for the credential \<open>token-alice\<close>. Redeemed at t0 + 299 s, the
  answer is 200 and the record is consumed, but the body is
  \<open>{token_type, expires_in}\<close> without the credential. Redeemed at t0 + 301 s instead,
  the timer has removed the record and the answer is invalid_grant.
\<close>

theorem redemption_before_expiry_hands_out_nothing:
  "SESSION_TIMEOUT stub_oauth_env = 300000
   \<and> post_token_at stub_oauth_env (1000 + 299000) (code_request ''abc123'')
        (snd (post_authenticate_at stub_oauth_env 1000 ''abc123'' alice_form empty_oauth_state))
     = Some (Json 200 [(''token_type'', JStr ''Bearer''), (''expires_in'', JNum (Fin 3600))],
             \<lparr>sessionStore = [], timers = [(301000, ''auth_code:abc123'')]\<rparr>)
   \<and> post_token_at stub_oauth_env (1000 + 301000) (code_request ''abc123'')
        (snd (post_authenticate_at stub_oauth_env 1000 ''abc123'' alice_form empty_oauth_state))
     = Some (Json 400 [(''error'', JStr ''invalid_grant''),
                       (''error_description'', JStr ''Authorization code is invalid or expired'')],
             \<lparr>sessionStore = [], timers = []\<rparr>)"
  by code_simp

lemma expiry_boundary_run:
  "post_token_at stub_oauth_env 300999 (code_request ''abc123'')
     (snd (post_authenticate_at stub_oauth_env 1000 ''abc123'' alice_form empty_oauth_state))
     = Some (Json 200 [(''token_type'', JStr ''Bearer''), (''expires_in'', JNum (Fin 3600))],
             \<lparr>sessionStore = [], timers = [(301000, ''auth_code:abc123'')]\<rparr>)
   \<and> post_token_at stub_oauth_env 301000 (code_request ''abc123'')
     (snd (post_authenticate_at stub_oauth_env 1000 ''abc123'' alice_form empty_oauth_state))
     = Some (invalid_grant, \<lparr>sessionStore = [], timers = []\<rparr>)"
  by code_simp

text \<open>
  C2 (the code at the failing input). A code is issued for a credential that the upstream
  no longer accepts when the code is redeemed. POST /token is answered by the handler
  registered first, which does not check the credential: it answers 200 and consumes the
  code. The handler registered second, which is never reached, would refuse with
  invalid_grant.
\<close>

theorem token_exchange_skips_revalidation:
  "post_authenticate_at revoked_oauth_env 0 ''abc123'' alice_form empty_oauth_state
     = (SuccessPage ''abc123'',
        \<lparr>sessionStore = [(''auth_code:abc123'', JStr ''token-alice'')],
         timers = [(300000, ''auth_code:abc123'')]\<rparr>)
   \<and> verifyToken revoked_oauth_env (JStr ''token-alice'') = False
   \<and> post_token_at revoked_oauth_env 1 (code_request ''abc123'')
        \<lparr>sessionStore = [(''auth_code:abc123'', JStr ''token-alice'')],
         timers = [(300000, ''auth_code:abc123'')]\<rparr>
     = Some (Json 200 [(''token_type'', JStr ''Bearer''), (''expires_in'', JNum (Fin 3600))],
             \<lparr>sessionStore = [], timers = [(300000, ''auth_code:abc123'')]\<rparr>)
   \<and> fst (token_handler_2 revoked_oauth_env (code_request ''abc123'')
        \<lparr>sessionStore = [(''auth_code:abc123'', JStr ''token-alice'')],
         timers = [(300000, ''auth_code:abc123'')]\<rparr>)
     = Json 400 [(''error'', JStr ''invalid_grant''),
                 (''error_description'', JStr ''Authorization code token is no longer valid'')]"
  by code_simp

text \<open>
  C4 (the code at the failing input). The credential form succeeds and the code is stored
  with the bearer credential, a string. The handler that answers POST /token reads the
  property \<open>access_token\<close> of that string, which is undefined, so the response body
  carries no \<open>access_token\<close> field. The handler registered second would return the
  stored credential.
\<close>

theorem token_exchange_omits_access_token:
  "post_authenticate_at stub_oauth_env 0 ''abc123'' alice_form empty_oauth_state
     = (SuccessPage ''abc123'',
        \<lparr>sessionStore = [(''auth_code:abc123'', JStr ''token-alice'')],
         timers = [(300000, ''auth_code:abc123'')]\<rparr>)
   \<and> post_token_at stub_oauth_env 1 (code_request ''abc123'')
        \<lparr>sessionStore = [(''auth_code:abc123'', JStr ''token-alice'')],
         timers = [(300000, ''auth_code:abc123'')]\<rparr>
     = Some (Json 200 [(''token_type'', JStr ''Bearer''), (''expires_in'', JNum (Fin 3600))],
             \<lparr>sessionStore = [], timers = [(300000, ''auth_code:abc123'')]\<rparr>)"
  by code_simp

lemma second_handler_returns_credential:
  "fst (token_handler_2 stub_oauth_env (code_request ''abc123'')
        \<lparr>sessionStore = [(''auth_code:abc123'', JStr ''token-alice'')],
         timers = [(300000, ''auth_code:abc123'')]\<rparr>)
     = Json 200 [(''access_token'', JStr ''token-alice''), (''token_type'', JStr ''Bearer''),
                 (''expires_in'', JNum (Fin 3600)), (''scope'', JStr ''read write'')]"
  by code_simp

end
